theory Spec2Isabelle
  imports Main "HOL-Library.AList" "HOL-Library.Char_ord" "HOL-Library.List_Lexorder"
begin

section \<open>Data model\<close>

text \<open>
  The session service of \<^verbatim>\<open>claude-api/session_manager.py\<close> and
  \<^verbatim>\<open>claude-api/claude_api_v2.py\<close>. A Python \<^verbatim>\<open>str\<close> is a \<^typ>\<open>string\<close>; one
  \<^typ>\<open>char\<close> stands for one character of the Python string. A dictionary whose order is
  observable (the session table, a directory listing) is an association list read with
  \<^const>\<open>map_of\<close> and written with \<^const>\<open>AList.update\<close>, which keeps the position of an
  existing key and appends a new one, as a Python \<^verbatim>\<open>dict\<close> does.
\<close>

datatype json =
    JNull | JBool bool | JNum int | JStr string
  | JArr "json list" | JObj "(string \<times> json) list"

datatype exc =
    HTTPException nat string
  | ValueError string
  | FileNotFoundError | FileExistsError | IsADirectoryError | NotADirectoryError
  | SameFileError | ShutilError
  | JSONDecodeError | KeyError | TypeError | AttributeError

record SessionCreateRequest =
  name :: string
  description :: "string option"
  shared :: "bool option"
  tags :: "string list option"
  initial_prompt :: "string option"

record MessageRequest =
  prompt :: string
  participant :: "string option"

record SessionUpdateRequest =
  description :: "string option"
  tags :: "string list option"
  shared :: "bool option"

record ReceiveKnowledgeRequest =
  from_session :: string
  knowledge :: string

record RegisterClaudeSessionRequest =
  marker_file :: string

record participant_entry =
  name :: string
  role :: string
  joined_at :: string

text \<open>
  The session record is the dictionary built by \<^verbatim>\<open>create_session\<close>. The keys that later
  operations add (\<^verbatim>\<open>archived_at\<close>, \<^verbatim>\<open>knowledge_received\<close>, \<^verbatim>\<open>parent_session\<close>,
  \<^verbatim>\<open>knowledge_transfer\<close>, \<^verbatim>\<open>fork_instruction_sent\<close>,
  \<^verbatim>\<open>awaiting_knowledge_transfer\<close>) are optional fields, \<open>None\<close> while the key is absent.
  \<^verbatim>\<open>description\<close> and \<^verbatim>\<open>shared\<close> are \<^verbatim>\<open>Optional\<close> in the request model and are stored
  as received.
\<close>

record session =
  id' :: string
  name :: string
  description :: "string option"
  created_at :: string
  last_accessed :: string
  shared :: "bool option"
  tags :: "string list"
  workspace :: string
  participants :: "participant_entry list"
  claude_session_id :: "string option"
  message_count :: int
  tool_usage :: "(string \<times> int) list"
  status :: string
  archived_at :: "string option"
  knowledge_received :: "bool option"
  parent_session :: "string option"
  knowledge_transfer :: "string option"
  fork_instruction_sent :: "bool option"
  awaiting_knowledge_transfer :: "bool option"

type_synonym store = "(string \<times> session) list"

text \<open>The transfer record written to \<^verbatim>\<open>.session/awaiting_transfer.json\<close>.\<close>

record transfer_data =
  from_session_id :: string
  to_session_id :: string
  t_created_at :: string
  t_status :: string
  received_at :: "string option"

text \<open>
  A file holds text, or the JSON document of a transfer record (kept parsed: the code reads
  and writes it only through \<^verbatim>\<open>json.load\<close> and \<^verbatim>\<open>json.dump\<close>). A directory lists its
  entries in the order \<^verbatim>\<open>iterdir\<close> yields them.
\<close>

datatype content = Text string | Transfer transfer_data

datatype node = File content | Dir "(string \<times> node) list"

type_synonym entries = "(string \<times> node) list"

text \<open>
  One line of a conversation log of the external tool: blank, a JSON document, or text that
  \<^verbatim>\<open>json.loads\<close> rejects. A log file has a name, a modification time and its lines.
\<close>

datatype line = Blank | Entry json | Garbage

record jsonl =
  j_name :: string
  j_mtime :: nat
  j_lines :: "line list"

text \<open>
  The disk: directory trees keyed by the path of their root (the session workspaces under
  \<^verbatim>\<open>/tmp/claude-sessions\<close>), the project directories of the external tool keyed by their
  path, and the metadata document \<^verbatim>\<open>sessions.json\<close> (\<open>None\<close> while it does not exist).
  Paths are the strings the code builds; \<^verbatim>\<open>Path(s)\<close> is taken on normalised strings, where
  it is the identity.
\<close>

record disk =
  files :: "string \<rightharpoonup> node"
  projects :: "string \<rightharpoonup> jsonl list"
  metadata_file :: "store option"

text \<open>
  The bytes a process wrote are used only through \<^verbatim>\<open>.decode()\<close>; they are represented by
  what \<^verbatim>\<open>decode\<close> does on them: the text, or the message of the \<^verbatim>\<open>UnicodeDecodeError\<close>
  it raises.
\<close>

datatype bytes = Utf8 string | Invalid string

datatype proc_outcome =
    Raised string
  | Exited int bytes bytes

record invocation =
  argv :: "string list"
  cwd :: string
  env_PATH_prefix :: string
  env_CLAUDE_SESSION_ID :: string
  env_CLAUDE_SESSION_NAME :: string
  stdin :: string

text \<open>
  What the program reads from outside: the clock, the UUID generator, the home directory
  and the external executable. The \<open>k\<close>-th reading of the clock and the \<open>k\<close>-th UUID are
  arbitrary strings; the \<open>k\<close>-th run of the executable maps the invocation and the disk it
  finds to its outcome and the disk it leaves.
\<close>

record env =
  utcnow_isoformat :: "nat \<Rightarrow> string"
  uuid4 :: "nat \<Rightarrow> string"
  home :: string
  subprocess_exec :: "nat \<Rightarrow> invocation \<Rightarrow> disk \<Rightarrow> proc_outcome \<times> disk"

text \<open>
  The state of the service: the in-memory table \<^verbatim>\<open>session_manager.sessions\<close>, the disk,
  the number of clock readings and UUIDs drawn so far, and (a ghost field) the runs of the
  external executable so far, each with the disk it was started on.
\<close>

record world =
  sessions :: store
  on_disk :: disk
  clock :: nat
  uuids :: nat
  launched :: "(invocation \<times> disk) list"

section \<open>Python helpers\<close>

text \<open>Truthiness of \<^verbatim>\<open>None\<close>, a string and a boolean, as \<^verbatim>\<open>if x:\<close> tests it.\<close>

definition truthy_str :: "string option \<Rightarrow> bool" where
  "truthy_str x = (case x of None \<Rightarrow> False | Some s \<Rightarrow> s \<noteq> [])"

definition truthy_bool :: "bool option \<Rightarrow> bool" where
  "truthy_bool x = (case x of None \<Rightarrow> False | Some b \<Rightarrow> b)"

text \<open>What an f-string prints for an optional string.\<close>

definition format_opt :: "string option \<Rightarrow> string" where
  "format_opt x = (case x of None \<Rightarrow> ''None'' | Some s \<Rightarrow> s)"

fun join :: "string \<Rightarrow> string list \<Rightarrow> string" where
  "join sep [] = []"
| "join sep [x] = x"
| "join sep (x # y # ys) = x @ sep @ join sep (y # ys)"

definition startswith :: "string \<Rightarrow> string \<Rightarrow> bool" where
  "startswith s p = (take (length p) s = p)"

definition endswith :: "string \<Rightarrow> string \<Rightarrow> bool" where
  "endswith s p = (length p \<le> length s \<and> drop (length s - length p) s = p)"

text \<open>\<^verbatim>\<open>s.replace(old, new)\<close>: the occurrences of \<open>old\<close>, left to right, not overlapping.\<close>

function replace :: "string \<Rightarrow> string \<Rightarrow> string \<Rightarrow> string" where
  "replace old new s =
     (if old = [] then new @ concat (map (\<lambda>c. c # new) s)
      else if s = [] then []
      else if startswith s old then new @ replace old new (drop (length old) s)
      else hd s # replace old new (tl s))"
  by pat_completeness auto
termination
  by (relation "measure (\<lambda>(old, new, s). length s)") auto

definition slash :: string where "slash = ''/''"

text \<open>\<^verbatim>\<open>base / name\<close> for a relative \<open>name\<close>; an empty \<open>name\<close> gives \<open>base\<close>.\<close>

definition path_join :: "string \<Rightarrow> string \<Rightarrow> string" where
  "path_join base nm = (if nm = [] then base else base @ slash @ nm)"

definition nl :: string where "nl = [CHR 0x0A]"
definition dq :: string where "dq = [CHR 0x22]"
definition sq :: string where "sq = [CHR 0x27]"
definition backslash :: string where "backslash = [CHR 0x5C]"

definition unlines :: "string list \<Rightarrow> string" where
  "unlines ls = concat (map (\<lambda>l. l @ nl) ls)"

section \<open>The file system\<close>

text \<open>
  An operation on a directory returns the directory as the operation leaves it and the
  exception it raised, if any: what was written before a failure stays written.
\<close>

type_synonym 'a raising = "'a \<times> exc option"

definition and_then :: "'a raising \<Rightarrow> ('a \<Rightarrow> 'a raising) \<Rightarrow> 'a raising" where
  "and_then r f = (case r of (a, None) \<Rightarrow> f a | (a, Some e) \<Rightarrow> (a, Some e))"

text \<open>\<^verbatim>\<open>(d / nm).write_text(c)\<close> and \<^verbatim>\<open>open(d / nm, 'w')\<close> with one write.\<close>

definition write_text :: "string \<Rightarrow> content \<Rightarrow> entries \<Rightarrow> entries raising" where
  "write_text nm c es =
     (case map_of es nm of
        Some (Dir sub) \<Rightarrow> (es, Some IsADirectoryError)
      | _ \<Rightarrow> (AList.update nm (File c) es, None))"

text \<open>\<^verbatim>\<open>(d / nm).mkdir(exist_ok=True)\<close>.\<close>

definition mkdir_exist_ok :: "string \<Rightarrow> entries \<Rightarrow> entries raising" where
  "mkdir_exist_ok nm es =
     (case map_of es nm of
        None \<Rightarrow> (AList.update nm (Dir []) es, None)
      | Some (Dir sub) \<Rightarrow> (es, None)
      | Some (File c) \<Rightarrow> (es, Some FileExistsError))"

text \<open>Running an operation inside the subdirectory \<open>nm\<close> of a directory.\<close>

definition in_subdir :: "string \<Rightarrow> (entries \<Rightarrow> entries raising) \<Rightarrow> entries \<Rightarrow> entries raising" where
  "in_subdir nm f es =
     (case map_of es nm of
        None \<Rightarrow> (es, Some FileNotFoundError)
      | Some (File c) \<Rightarrow> (es, Some NotADirectoryError)
      | Some (Dir sub) \<Rightarrow> (case f sub of (sub', e) \<Rightarrow> (AList.update nm (Dir sub') es, e)))"

text \<open>Running an operation inside the directory at path \<open>p\<close>.\<close>

definition in_dir :: "string \<Rightarrow> (entries \<Rightarrow> entries raising) \<Rightarrow> (string \<rightharpoonup> node) \<Rightarrow> (string \<rightharpoonup> node) raising" where
  "in_dir p f fs =
     (case fs p of
        None \<Rightarrow> (fs, Some FileNotFoundError)
      | Some (File c) \<Rightarrow> (fs, Some NotADirectoryError)
      | Some (Dir es) \<Rightarrow> (case f es of (es', e) \<Rightarrow> (fs(p \<mapsto> Dir es'), e)))"

text \<open>\<^verbatim>\<open>Path(p).mkdir(exist_ok=True)\<close> for the root of a tree.\<close>

definition mkdir_root :: "string \<Rightarrow> (string \<rightharpoonup> node) \<Rightarrow> (string \<rightharpoonup> node) raising" where
  "mkdir_root p fs =
     (case fs p of
        None \<Rightarrow> (fs(p \<mapsto> Dir []), None)
      | Some (Dir es) \<Rightarrow> (fs, None)
      | Some (File c) \<Rightarrow> (fs, Some FileExistsError))"

text \<open>
  \<^verbatim>\<open>shutil.copy2(src, d / nm)\<close> of a file with content \<open>c\<close> and base name \<open>nm\<close>: when
  \<open>d / nm\<close> is a directory the file goes inside it under its base name.
\<close>

definition copy2 :: "string \<Rightarrow> content \<Rightarrow> entries \<Rightarrow> entries raising" where
  "copy2 nm c es =
     (case map_of es nm of
        Some (Dir sub) \<Rightarrow> in_subdir nm (write_text nm c) es
      | _ \<Rightarrow> write_text nm c es)"

text \<open>
  \<^verbatim>\<open>shutil.copytree(src, dst, dirs_exist_ok=True)\<close>, the entries of \<open>src\<close> copied over the
  entries of \<open>dst\<close> once \<^verbatim>\<open>os.makedirs(dst, exist_ok=True)\<close> has passed. An entry that
  fails is recorded and the loop goes on; the flag returned is \<open>True\<close> when no entry
  failed (otherwise \<^verbatim>\<open>copytree\<close> ends with \<^verbatim>\<open>shutil.Error\<close>).
\<close>

function copytree_entries :: "entries \<Rightarrow> entries \<Rightarrow> entries \<times> bool" where
  "copytree_entries [] dst = (dst, True)"
| "copytree_entries ((nm, File c) # rest) dst =
     (case copy2 nm c dst of
        (dst', None) \<Rightarrow> copytree_entries rest dst'
      | (dst', Some e) \<Rightarrow> (fst (copytree_entries rest dst'), False))"
| "copytree_entries ((nm, Dir sub) # rest) dst =
     (case map_of dst nm of
        Some (File c) \<Rightarrow> (fst (copytree_entries rest dst), False)
      | Some (Dir dsub) \<Rightarrow>
          (case copytree_entries sub dsub of
             (dsub', ok) \<Rightarrow>
               (case copytree_entries rest (AList.update nm (Dir dsub') dst) of
                  (dst', ok') \<Rightarrow> (dst', ok \<and> ok')))
      | None \<Rightarrow>
          (case copytree_entries sub [] of
             (dsub', ok) \<Rightarrow>
               (case copytree_entries rest (AList.update nm (Dir dsub') dst) of
                  (dst', ok') \<Rightarrow> (dst', ok \<and> ok'))))"
  by pat_completeness auto
termination
  by (relation "measure (\<lambda>(src, dst). size_list (size_prod (\<lambda>x. 0) size) src)") auto

text \<open>\<^verbatim>\<open>shutil.copytree(item, d / nm, dirs_exist_ok=True)\<close> for a directory \<open>item\<close>.\<close>

definition copytree :: "string \<Rightarrow> entries \<Rightarrow> entries \<Rightarrow> entries raising" where
  "copytree nm sub es =
     (case map_of es nm of
        Some (File c) \<Rightarrow> (es, Some FileExistsError)
      | Some (Dir dsub) \<Rightarrow>
          (case copytree_entries sub dsub of
             (dsub', ok) \<Rightarrow> (AList.update nm (Dir dsub') es, if ok then None else Some ShutilError))
      | None \<Rightarrow>
          (case copytree_entries sub [] of
             (dsub', ok) \<Rightarrow> (AList.update nm (Dir dsub') es, if ok then None else Some ShutilError)))"

section \<open>The session manager\<close>

definition sessions_dir :: string where
  "sessions_dir = ''/tmp/claude-sessions''"

definition set_files :: "(string \<rightharpoonup> node) \<Rightarrow> world \<Rightarrow> world" where
  "set_files fs w = w\<lparr>on_disk := (on_disk w)\<lparr>files := fs\<rparr>\<rparr>"

text \<open>\<^verbatim>\<open>save_metadata\<close>: the whole table overwrites the document on disk.\<close>

definition save_metadata :: "world \<Rightarrow> world" where
  "save_metadata w = w\<lparr>on_disk := (on_disk w)\<lparr>metadata_file := Some (sessions w)\<rparr>\<rparr>"

text \<open>\<^verbatim>\<open>load_metadata\<close>, run once when the manager is built.\<close>

definition load_metadata :: "world \<Rightarrow> world" where
  "load_metadata w =
     (case metadata_file (on_disk w) of
        Some st \<Rightarrow> w\<lparr>sessions := st\<rparr>
      | None \<Rightarrow> w\<lparr>sessions := []\<rparr>)"

text \<open>\<^verbatim>\<open>datetime.utcnow().isoformat()\<close>: the next reading of the clock.\<close>

definition utcnow :: "env \<Rightarrow> world \<Rightarrow> string \<times> world" where
  "utcnow E w = (utcnow_isoformat E (clock w), w\<lparr>clock := Suc (clock w)\<rparr>)"

text \<open>The text of \<^verbatim>\<open>CLAUDE.md\<close> that \<^verbatim>\<open>create_session_context\<close> formats.\<close>

definition claude_md :: "session \<Rightarrow> string" where
  "claude_md s = unlines [
      ''# Session: '' @ name s,
      '''',
      ''## Session Information'',
      ''- **ID**: '' @ id' s,
      ''- **Created**: '' @ created_at s,
      ''- **Description**: '' @ format_opt (description s),
      ''- **Tags**: '' @ join '', '' (tags s),
      ''- **Shared**: '' @ (if truthy_bool (shared s) then ''Yes'' else ''No''),
      '''',
      ''## CRITICAL: Register Your Session ID'',
      '''',
      ''As your FIRST action, please execute these commands to enable conversation memory:'',
      ''```bash'',
      ''# Create a marker file with your Claude session ID'',
      ''echo '' @ dq @ ''CLAUDE_SESSION_REGISTERED'' @ dq @ '' > .session/registration_marker.txt'',
      '''',
      ''# Send your session ID to the API'',
      ''curl -X POST http://localhost:8001/sessions/'' @ id' s @ ''/register-claude-session '' @ backslash,
      ''  -H '' @ dq @ ''Content-Type: application/json'' @ dq @ '' '' @ backslash,
      ''  -d '' @ sq @ ''{'' @ dq @ ''marker_file'' @ dq @ '': '' @ dq @ ''.session/registration_marker.txt'' @ dq @ ''}'' @ sq,
      ''```'',
      '''',
      ''This step is ESSENTIAL for conversation memory to work across API calls.'',
      '''',
      ''## Session Guidelines'',
      ''You are participating in a persistent session that may involve multiple participants over time.'',
      ''- Maintain context across all interactions'',
      ''- Reference previous decisions and discussions'',
      ''- Keep track of action items and progress'',
      ''- Update session state when significant changes occur'',
      '''',
      ''## Available Tools'',
      ''All standard tools are available, plus:'',
      ''- `session-update` - Update session metadata'',
      ''- `session-note` - Add notes to session history'',
      ''- `session-invite` - Invite participants (if shared)'',
      '''',
      ''## Session State'',
      ''You can store and retrieve session state:'',
      ''```bash'',
      ''# Store state'',
      ''echo '' @ sq @ ''{'' @ dq @ ''key'' @ dq @ '': '' @ dq @ ''value'' @ dq @ ''}'' @ sq @ '' > .session/state.json'',
      '''',
      ''# Retrieve state  '',
      ''cat .session/state.json'',
      ''```'',
      '''',
      ''## Collaboration'',
      ''When multiple participants are involved:'',
      ''- Summarize recent changes when a new participant joins'',
      ''- Maintain a decision log in .session/decisions.md'',
      ''- Track action items in .session/todos.md'']"

definition create_session_context :: "session \<Rightarrow> entries \<Rightarrow> entries raising" where
  "create_session_context session_info es =
     and_then (write_text ''CLAUDE.md'' (Text (claude_md session_info)) es) (\<lambda>es.
     and_then (mkdir_exist_ok ''.session'' es) (\<lambda>es.
     in_subdir ''.session'' (\<lambda>sub.
       and_then (write_text ''state.json'' (Text ''{}'') sub) (\<lambda>sub.
       and_then (write_text ''decisions.md''
                   (Text (''# Decisions Log - '' @ name session_info @ nl @ nl)) sub) (\<lambda>sub.
       write_text ''todos.md''
                   (Text (''# Action Items - '' @ name session_info @ nl @ nl)) sub))) es))"

definition create_session ::
  "env \<Rightarrow> string \<Rightarrow> string option \<Rightarrow> bool option \<Rightarrow> string list option \<Rightarrow> world
     \<Rightarrow> world \<times> (exc + session)" where
  "create_session E nm descr shr tgs w =
     (let session_id = uuid4 E (uuids w);
          w1 = w\<lparr>uuids := Suc (uuids w)\<rparr>;
          wsp = path_join sessions_dir session_id
      in case mkdir_root wsp (files (on_disk w1)) of
           (fs, Some e) \<Rightarrow> (set_files fs w1, Inl e)
         | (fs, None) \<Rightarrow>
             (case utcnow E (set_files fs w1) of (t_created, w2) \<Rightarrow>
             (case utcnow E w2 of (t_accessed, w3) \<Rightarrow>
               (let session_info =
                      \<lparr> id' = session_id, name = nm, description = descr,
                        created_at = t_created, last_accessed = t_accessed,
                        shared = shr,
                        tags = (case tgs of None \<Rightarrow> [] | Some ts \<Rightarrow> ts),
                        workspace = wsp, participants = [],
                        claude_session_id = None, message_count = 0,
                        tool_usage = [], status = ''active'',
                        archived_at = None, knowledge_received = None,
                        parent_session = None, knowledge_transfer = None,
                        fork_instruction_sent = None,
                        awaiting_knowledge_transfer = None \<rparr>;
                    w4 = save_metadata
                           (w3\<lparr>sessions := AList.update session_id session_info (sessions w3)\<rparr>)
                in (case in_dir wsp (create_session_context session_info) (files (on_disk w4)) of
                      (fs', None) \<Rightarrow> (set_files fs' w4, Inr session_info)
                    | (fs', Some e) \<Rightarrow> (set_files fs' w4, Inl e))))))"

text \<open>\<^verbatim>\<open>add_participant\<close>, with the default role of its caller.\<close>

definition add_participant :: "env \<Rightarrow> string \<Rightarrow> string \<Rightarrow> string \<Rightarrow> world \<Rightarrow> world" where
  "add_participant E session_id prt rl w =
     (if map_of (sessions w) session_id \<noteq> None then
        (case utcnow E w of (t, w1) \<Rightarrow>
           save_metadata
             (w1\<lparr>sessions :=
                   AList.map_entry session_id
                     (\<lambda>s. s\<lparr>participants :=
                               participants s @ [\<lparr> participant_entry.name = prt, role = rl, joined_at = t \<rparr>]\<rparr>)
                     (sessions w1)\<rparr>))
      else w)"

text \<open>
  The loop of \<^verbatim>\<open>clone_session\<close> over \<^verbatim>\<open>original_workspace.iterdir()\<close>: a file is copied
  with \<^verbatim>\<open>copy2\<close>, a directory other than \<^verbatim>\<open>.claude\<close> with \<^verbatim>\<open>copytree\<close>; the first
  exception ends the loop.
\<close>

fun copy_workspace :: "entries \<Rightarrow> entries \<Rightarrow> entries raising" where
  "copy_workspace [] dst = (dst, None)"
| "copy_workspace ((nm, File c) # rest) dst =
     (case copy2 nm c dst of
        (dst', None) \<Rightarrow> copy_workspace rest dst'
      | (dst', Some e) \<Rightarrow> (dst', Some e))"
| "copy_workspace ((nm, Dir sub) # rest) dst =
     (if nm \<noteq> ''.claude'' then
        (case copytree nm sub dst of
           (dst', None) \<Rightarrow> copy_workspace rest dst'
         | (dst', Some e) \<Rightarrow> (dst', Some e))
      else copy_workspace rest dst)"

text \<open>
  The same loop when source and destination are one directory: \<^verbatim>\<open>copy2\<close> of a file onto
  itself raises \<^verbatim>\<open>SameFileError\<close>, at once for a file of the workspace and collected by
  \<^verbatim>\<open>copytree\<close> for a file below it; nothing is written.
\<close>

fun contains_file :: "node \<Rightarrow> bool"
  and any_contains_file :: "entries \<Rightarrow> bool" where
  "contains_file (File c) = True"
| "contains_file (Dir es) = any_contains_file es"
| "any_contains_file [] = False"
| "any_contains_file ((nm, x) # rest) = (contains_file x \<or> any_contains_file rest)"

fun copy_onto_itself :: "entries \<Rightarrow> exc option" where
  "copy_onto_itself [] = None"
| "copy_onto_itself ((nm, File c) # rest) = Some SameFileError"
| "copy_onto_itself ((nm, Dir sub) # rest) =
     (if nm \<noteq> ''.claude'' \<and> any_contains_file sub then Some ShutilError
      else copy_onto_itself rest)"

definition copy_items :: "string \<Rightarrow> string \<Rightarrow> (string \<rightharpoonup> node) \<Rightarrow> (string \<rightharpoonup> node) raising" where
  "copy_items original_workspace new_workspace fs =
     (case fs original_workspace of
        None \<Rightarrow> (fs, Some FileNotFoundError)
      | Some (File c) \<Rightarrow> (fs, Some NotADirectoryError)
      | Some (Dir src) \<Rightarrow>
          if original_workspace = new_workspace then (fs, copy_onto_itself src)
          else if src = [] then (fs, None)
          else in_dir new_workspace (copy_workspace src) fs)"

text \<open>\<^verbatim>\<open>ClaudeSessionManager.clone_session\<close>.\<close>

definition clone_session :: "env \<Rightarrow> string \<Rightarrow> string \<Rightarrow> world \<Rightarrow> world \<times> (exc + session)" where
  "clone_session E session_id new_name w =
     (case map_of (sessions w) session_id of
        None \<Rightarrow> (w, Inl (ValueError ''Session not found''))
      | Some original \<Rightarrow>
          (case create_session E new_name (Some (''Cloned from '' @ name original))
                  (shared original) (Some (tags original @ [''cloned''])) w of
             (w1, Inl e) \<Rightarrow> (w1, Inl e)
           | (w1, Inr created) \<Rightarrow>
              (let new_session =
                     (if truthy_str (claude_session_id original)
                      then created\<lparr>claude_session_id := claude_session_id original\<rparr>
                      else created);
                   w2 = (if truthy_str (claude_session_id original)
                         then save_metadata
                                (w1\<lparr>sessions :=
                                      AList.update (id' new_session) new_session (sessions w1)\<rparr>)
                         else w1)
               in (case copy_items (workspace original) (workspace new_session)
                          (files (on_disk w2)) of
                     (fs, None) \<Rightarrow> (set_files fs w2, Inr new_session)
                   | (fs, Some e) \<Rightarrow> (set_files fs w2, Inl e)))))"

text \<open>\<^verbatim>\<open>archive_session\<close> and \<^verbatim>\<open>list_active_sessions\<close>.\<close>

definition archive_session :: "env \<Rightarrow> string \<Rightarrow> world \<Rightarrow> world" where
  "archive_session E session_id w =
     (if map_of (sessions w) session_id \<noteq> None then
        (case utcnow E w of (t, w1) \<Rightarrow>
           save_metadata
             (w1\<lparr>sessions :=
                   AList.map_entry session_id
                     (\<lambda>s. s\<lparr>status := ''archived'', archived_at := Some t\<rparr>)
                     (sessions w1)\<rparr>))
      else w)"

definition list_active_sessions :: "world \<Rightarrow> session list" where
  "list_active_sessions w = filter (\<lambda>s. status s = ''active'') (map snd (sessions w))"

text \<open>
  \<^verbatim>\<open>search_sessions\<close>: a session is kept when the query is in its name and description
  (lower case), or else when one of the tags given is among its tags.
\<close>

definition lower :: "string \<Rightarrow> string" where
  "lower s = map (\<lambda>c. if CHR ''A'' \<le> c \<and> c \<le> CHR ''Z'' then char_of (of_char c + (32::nat)) else c) s"

fun contains_str :: "string \<Rightarrow> string \<Rightarrow> bool" where
  "contains_str [] sub = (sub = [])"
| "contains_str (c # cs) sub = (startswith (c # cs) sub \<or> contains_str cs sub)"

definition search_sessions :: "string option \<Rightarrow> string list option \<Rightarrow> world \<Rightarrow> session list" where
  "search_sessions query tgs w =
     filter (\<lambda>s.
        (truthy_str query \<and>
           contains_str (lower (name s @ '' '' @ format_opt (description s)))
                        (lower (format_opt query)))
        \<or> ((case tgs of None \<Rightarrow> False | Some ts \<Rightarrow> ts \<noteq> [] \<and> list_ex (\<lambda>t. t \<in> set (tags s)) ts)))
       (map snd (sessions w))"

section \<open>Conversation logs of the external tool\<close>

text \<open>
  \<^verbatim>\<open>Path.home() / ".claude" / "projects" / escaped_workspace\<close>, the workspace path with
  \<^verbatim>\<open>/tmp/\<close> replaced by \<^verbatim>\<open>/private/tmp/\<close> and every \<^verbatim>\<open>/\<close> by \<^verbatim>\<open>-\<close>.
\<close>

definition project_dir :: "env \<Rightarrow> string \<Rightarrow> string" where
  "project_dir E wsp =
     path_join (home E @ ''/.claude/projects'')
       (replace ''/'' ''-'' (replace ''/tmp/'' ''/private/tmp/'' wsp))"

text \<open>\<^verbatim>\<open>project_dir.glob("*.jsonl")\<close>.\<close>

definition glob_jsonl :: "jsonl list \<Rightarrow> jsonl list" where
  "glob_jsonl fs = filter (\<lambda>f. endswith (j_name f) ''.jsonl'') fs"

text \<open>\<^verbatim>\<open>Path.stem\<close>: the name up to its last dot, when that dot is neither first nor last.\<close>

definition stem :: "string \<Rightarrow> string" where
  "stem nm =
     (let k = length (takeWhile (\<lambda>c. c \<noteq> CHR ''.'') (rev nm))
      in if k < length nm \<and> 0 < k \<and> 0 < length nm - 1 - k then take (length nm - 1 - k) nm
         else nm)"

text \<open>\<^verbatim>\<open>max(jsonl_files, key=lambda p: p.stat().st_mtime)\<close>: the first of the newest.\<close>

fun newest :: "jsonl \<Rightarrow> jsonl list \<Rightarrow> jsonl" where
  "newest best [] = best"
| "newest best (f # fs) = newest (if j_mtime best < j_mtime f then f else best) fs"

definition discover :: "env \<Rightarrow> string \<Rightarrow> disk \<Rightarrow> string option" where
  "discover E wsp d =
     (case projects d (project_dir E wsp) of
        None \<Rightarrow> None
      | Some fs \<Rightarrow>
          (case glob_jsonl fs of
             [] \<Rightarrow> None
           | f # rest \<Rightarrow> Some (stem (j_name (newest f rest)))))"

text \<open>The lines of the log files, parsed: blank lines are skipped.\<close>

fun parse_lines :: "line list \<Rightarrow> exc + json list" where
  "parse_lines [] = Inr []"
| "parse_lines (Blank # ls) = parse_lines ls"
| "parse_lines (Garbage # ls) = Inl JSONDecodeError"
| "parse_lines (Entry j # ls) =
     (case parse_lines ls of Inl e \<Rightarrow> Inl e | Inr js \<Rightarrow> Inr (j # js))"

text \<open>
  The sort key \<^verbatim>\<open>x.get('timestamp', '')\<close>. An entry that is no object has no \<^verbatim>\<open>get\<close>;
  the timestamps of the logs are strings, and one that is not is reported as a
  \<^verbatim>\<open>TypeError\<close>.
\<close>

definition timestamp_key :: "json \<Rightarrow> exc + string" where
  "timestamp_key x =
     (case x of
        JObj kv \<Rightarrow>
          (case map_of kv ''timestamp'' of
             None \<Rightarrow> Inr []
           | Some (JStr t) \<Rightarrow> Inr t
           | Some other \<Rightarrow> Inl TypeError)
      | other \<Rightarrow> Inl AttributeError)"

fun with_keys :: "json list \<Rightarrow> exc + (string \<times> json) list" where
  "with_keys [] = Inr []"
| "with_keys (x # xs) =
     (case timestamp_key x of
        Inl e \<Rightarrow> Inl e
      | Inr k \<Rightarrow> (case with_keys xs of Inl e \<Rightarrow> Inl e | Inr ks \<Rightarrow> Inr ((k, x) # ks)))"

text \<open>\<^verbatim>\<open>ClaudeSessionManager.get_session_history\<close>; the sort is stable.\<close>

definition get_session_history :: "env \<Rightarrow> string \<Rightarrow> world \<Rightarrow> exc + json list" where
  "get_session_history E session_id w =
     (case map_of (sessions w) session_id of
        None \<Rightarrow> Inr []
      | Some s \<Rightarrow>
          (case projects (on_disk w) (project_dir E (workspace s)) of
             None \<Rightarrow> Inr []
           | Some fs \<Rightarrow>
               (case parse_lines (concat (map j_lines (glob_jsonl fs))) of
                  Inl e \<Rightarrow> Inl e
                | Inr history \<Rightarrow>
                    (case with_keys history of
                       Inl e \<Rightarrow> Inl e
                     | Inr keyed \<Rightarrow> Inr (map snd (sort_key fst keyed))))))"

section \<open>The process executor\<close>

record result =
  success :: bool
  response :: "string option"
  error :: "string option"

definition failed :: "string \<Rightarrow> result" where
  "failed e = \<lparr> success = False, response = None, error = Some e \<rparr>"

definition base_cmd :: "string list" where
  "base_cmd = [''claude'', ''--print'', ''--allowedTools'',
               ''Bash,Read,Write,Edit,WebSearch,WebFetch'']"

definition tool_bin_path :: string where
  "tool_bin_path = ''/Users/pete/Projects/tool-library/bin''"

text \<open>
  The block of \<^verbatim>\<open>execute_claude\<close> that follows a zero exit status: the record's activity
  is updated, the conversation handle is looked for when the record has none, and the
  table is saved.
\<close>

definition update_activity :: "env \<Rightarrow> string \<Rightarrow> string \<Rightarrow> world \<Rightarrow> world" where
  "update_activity E wsp session_id w =
     (if map_of (sessions w) session_id \<noteq> None then
        (case utcnow E w of (t, w1) \<Rightarrow>
           (let w2 = w1\<lparr>sessions :=
                        AList.map_entry session_id
                          (\<lambda>s. s\<lparr>last_accessed := t, message_count := message_count s + 1\<rparr>)
                          (sessions w1)\<rparr>;
                w3 = (case map_of (sessions w2) session_id of
                        None \<Rightarrow> w2
                      | Some s \<Rightarrow>
                          if \<not> truthy_str (claude_session_id s) then
                            (case discover E wsp (on_disk w2) of
                               None \<Rightarrow> w2
                             | Some c \<Rightarrow>
                                 w2\<lparr>sessions :=
                                      AList.map_entry session_id
                                        (\<lambda>s. s\<lparr>claude_session_id := Some c\<rparr>) (sessions w2)\<rparr>)
                          else w2)
            in save_metadata w3))
      else w)"

text \<open>
  \<^verbatim>\<open>execute_claude\<close>. Everything from the spawn to the \<^verbatim>\<open>return\<close> is inside one
  \<^verbatim>\<open>try\<close>: an exception of the spawn, of \<^verbatim>\<open>stderr.decode()\<close> or of
  \<^verbatim>\<open>stdout.decode()\<close> becomes a failed result. \<^verbatim>\<open>stdout.decode()\<close> is evaluated in the
  \<^verbatim>\<open>return\<close> statement, after the activity block.
\<close>

text \<open>The command line and the environment that \<^verbatim>\<open>execute_claude\<close> builds.\<close>

definition build_invocation :: "string \<Rightarrow> string \<Rightarrow> string \<Rightarrow> bool \<Rightarrow> world \<Rightarrow> invocation" where
  "build_invocation prmpt wsp session_id continue_session w =
     (let session_info = map_of (sessions w) session_id;
          csid = (case session_info of None \<Rightarrow> None | Some s \<Rightarrow> claude_session_id s);
          cmd = base_cmd @
                (case csid of
                   Some c \<Rightarrow> if continue_session \<and> c \<noteq> [] then [''--resume'', c] else []
                 | None \<Rightarrow> [])
      in \<lparr> argv = cmd, cwd = wsp, env_PATH_prefix = tool_bin_path,
           env_CLAUDE_SESSION_ID = session_id,
           env_CLAUDE_SESSION_NAME = (case session_info of None \<Rightarrow> [] | Some s \<Rightarrow> name s),
           stdin = prmpt \<rparr>)"

definition execute_claude ::
  "env \<Rightarrow> string \<Rightarrow> string \<Rightarrow> string \<Rightarrow> bool \<Rightarrow> world \<Rightarrow> world \<times> result" where
  "execute_claude E prmpt wsp session_id continue_session w =
     (let inv = build_invocation prmpt wsp session_id continue_session w
      in case subprocess_exec E (length (launched w)) inv (on_disk w) of
           (outcome, d) \<Rightarrow>
             (let w1 = w\<lparr>on_disk := d, launched := launched w @ [(inv, on_disk w)]\<rparr>
              in case outcome of
                   Raised e \<Rightarrow> (w1, failed e)
                 | Exited returncode out err \<Rightarrow>
                     if returncode \<noteq> 0 then
                       (case err of
                          Utf8 t \<Rightarrow> (w1, failed t)
                        | Invalid e \<Rightarrow> (w1, failed e))
                     else
                       (let w2 = update_activity E wsp session_id w1
                        in case out of
                             Utf8 t \<Rightarrow>
                               (w2, \<lparr> success = True, response = Some t, error = None \<rparr>)
                           | Invalid e \<Rightarrow> (w2, failed e))))"

section \<open>The HTTP handlers\<close>

text \<open>
  A handler returns the state it leaves and either the exception it raised or its response.
  An \<^const>\<open>HTTPException\<close> carries its status code; any other exception that leaves a handler
  is answered with status 500. The WebSocket fan-out of \<^verbatim>\<open>notify_session_update\<close> touches
  neither the table nor the disk and is left out.
\<close>

definition status_code :: "exc \<Rightarrow> nat" where
  "status_code e = (case e of HTTPException c d \<Rightarrow> c | other \<Rightarrow> 500)"

datatype turn =
    UserTurn json json
  | AssistantTurn string "(json option \<times> json option) list" json

datatype reply =
    CreateReply session "string option" "string option"
  | ListReply "session list" nat
  | SessionReply session
  | HistoryReply string "turn list" nat
  | MessageReply string "string option" string string string
  | KnowledgeReply string string string
  | ArchiveReply string string
  | RegisterReply string string string string

definition create_session_api ::
  "env \<Rightarrow> SessionCreateRequest \<Rightarrow> world \<Rightarrow> world \<times> (exc + reply)" where
  "create_session_api E request w =
     (case create_session E (SessionCreateRequest.name request)
             (SessionCreateRequest.description request)
             (SessionCreateRequest.shared request) (SessionCreateRequest.tags request) w of
        (w1, Inl e) \<Rightarrow> (w1, Inl e)
      | (w1, Inr s) \<Rightarrow>
          (case initial_prompt request of
             None \<Rightarrow> (w1, Inr (CreateReply s None None))
           | Some p \<Rightarrow>
               if p = [] then (w1, Inr (CreateReply s None None))
               else
                 (case execute_claude E p (workspace s) (id' s) False w1 of
                    (w2, r) \<Rightarrow>
                      (let s' = (case map_of (sessions w2) (id' s) of None \<Rightarrow> s | Some x \<Rightarrow> x)
                       in if success r then (w2, Inr (CreateReply s' (response r) None))
                          else (w2, Inr (CreateReply s' None (error r)))))))"

definition list_sessions :: "bool \<Rightarrow> string option \<Rightarrow> world \<Rightarrow> world \<times> (exc + reply)" where
  "list_sessions active_only tag w =
     (let found = (if truthy_str tag then search_sessions None (Some [format_opt tag]) w
                   else if active_only then list_active_sessions w
                   else map snd (sessions w))
      in (w, Inr (ListReply found (length found))))"

definition get_session :: "string \<Rightarrow> world \<Rightarrow> world \<times> (exc + reply)" where
  "get_session session_id w =
     (case map_of (sessions w) session_id of
        None \<Rightarrow> (w, Inl (HTTPException 404 ''Session not found''))
      | Some s \<Rightarrow> (w, Inr (SessionReply s)))"

text \<open>The reshaping of one log entry by the history handler.\<close>

definition jget :: "json \<Rightarrow> string \<Rightarrow> exc + json option" where
  "jget x k = (case x of JObj kv \<Rightarrow> Inr (map_of kv k) | other \<Rightarrow> Inl AttributeError)"

definition jindex :: "json \<Rightarrow> string \<Rightarrow> exc + json" where
  "jindex x k =
     (case x of
        JObj kv \<Rightarrow> (case map_of kv k of None \<Rightarrow> Inl KeyError | Some v \<Rightarrow> Inr v)
      | other \<Rightarrow> Inl TypeError)"

fun format_items :: "json list \<Rightarrow> exc + string \<times> (json option \<times> json option) list" where
  "format_items [] = Inr ([], [])"
| "format_items (item # items) =
     (case jget item ''type'' of
        Inl e \<Rightarrow> Inl e
      | Inr ty \<Rightarrow>
          if ty = Some (JStr ''text'') then
            (case jindex item ''text'' of
               Inl KeyError \<Rightarrow>
                 (case format_items items of Inl e \<Rightarrow> Inl e | Inr (txt, tools) \<Rightarrow> Inr (txt, tools))
             | Inl e \<Rightarrow> Inl e
             | Inr (JStr t) \<Rightarrow>
                 (case format_items items of
                    Inl e \<Rightarrow> Inl e
                  | Inr (txt, tools) \<Rightarrow> Inr (t @ txt, tools))
             | Inr other \<Rightarrow> Inl TypeError)
          else if ty = Some (JStr ''tool_use'') then
            (case format_items items of
               Inl e \<Rightarrow> Inl e
             | Inr (txt, tools) \<Rightarrow>
                 Inr (txt, (map_of (case item of JObj kv \<Rightarrow> kv | other \<Rightarrow> []) ''name'',
                            map_of (case item of JObj kv \<Rightarrow> kv | other \<Rightarrow> []) ''input'') # tools))
          else format_items items)"

fun format_history :: "json list \<Rightarrow> exc + turn list" where
  "format_history [] = Inr []"
| "format_history (entry # rest) =
     (case jget entry ''type'' of
        Inl e \<Rightarrow> Inl e
      | Inr ty \<Rightarrow>
          if ty = Some (JStr ''user'') then
            (case jindex entry ''message'' of
               Inl e \<Rightarrow> Inl e
             | Inr m \<Rightarrow>
                 (case jindex m ''content'' of
                    Inl e \<Rightarrow> Inl e
                  | Inr c \<Rightarrow>
                      (case jindex entry ''timestamp'' of
                         Inl e \<Rightarrow> Inl e
                       | Inr ts \<Rightarrow>
                           (case format_history rest of
                              Inl e \<Rightarrow> Inl e
                            | Inr turns \<Rightarrow> Inr (UserTurn c ts # turns)))))
          else if ty = Some (JStr ''assistant'') then
            (case jget (case jget entry ''message'' of Inr (Some m) \<Rightarrow> m | other \<Rightarrow> JObj [])
                       ''content'' of
               Inl e \<Rightarrow> Inl e
             | Inr items \<Rightarrow>
                 (case (case items of None \<Rightarrow> Inr [] | Some (JArr xs) \<Rightarrow> Inr xs
                        | Some other \<Rightarrow> Inl TypeError) of
                    Inl e \<Rightarrow> Inl e
                  | Inr xs \<Rightarrow>
                      (case format_items xs of
                         Inl e \<Rightarrow> Inl e
                       | Inr (txt, tools) \<Rightarrow>
                           (case jindex entry ''timestamp'' of
                              Inl e \<Rightarrow> Inl e
                            | Inr ts \<Rightarrow>
                                (case format_history rest of
                                   Inl e \<Rightarrow> Inl e
                                 | Inr turns \<Rightarrow> Inr (AssistantTurn txt tools ts # turns))))))
          else format_history rest)"

definition get_session_history_api :: "env \<Rightarrow> string \<Rightarrow> world \<Rightarrow> world \<times> (exc + reply)" where
  "get_session_history_api E session_id w =
     (case get_session_history E session_id w of
        Inl e \<Rightarrow> (w, Inl e)
      | Inr history \<Rightarrow>
          if history = [] then (w, Inl (HTTPException 404 ''Session history not found''))
          else
            (case format_history history of
               Inl e \<Rightarrow> (w, Inl e)
             | Inr formatted \<Rightarrow>
                 (w, Inr (HistoryReply session_id formatted (length formatted)))))"

definition send_message :: "env \<Rightarrow> string \<Rightarrow> MessageRequest \<Rightarrow> world \<Rightarrow> world \<times> (exc + reply)" where
  "send_message E session_id request w =
     (case map_of (sessions w) session_id of
        None \<Rightarrow> (w, Inl (HTTPException 404 ''Session not found''))
      | Some s \<Rightarrow>
          if files (on_disk w) (workspace s) = None then
            (w, Inl (HTTPException 500 ''Session workspace not found''))
          else
            (let w1 = (if truthy_bool (shared s) \<and> truthy_str (participant request)
                          \<and> \<not> list_ex (\<lambda>p. participant_entry.name p = format_opt (participant request))
                                 (participants s)
                       then add_participant E session_id (format_opt (participant request))
                              ''contributor'' w
                       else w);
                 p = (if truthy_bool (shared s)
                      then ''['' @ format_opt (participant request) @ '']: '' @ prompt request
                      else prompt request)
             in case execute_claude E p (workspace s) session_id True w1 of
                  (w2, r) \<Rightarrow>
                    if \<not> success r then (w2, Inl (HTTPException 500 (format_opt (error r))))
                    else
                      (case utcnow E w2 of
                         (t, w3) \<Rightarrow>
                           (w3, Inr (MessageReply session_id (participant request)
                                       (prompt request) (format_opt (response r)) t)))))"

definition update_session ::
  "string \<Rightarrow> SessionUpdateRequest \<Rightarrow> world \<Rightarrow> world \<times> (exc + reply)" where
  "update_session session_id request w =
     (case map_of (sessions w) session_id of
        None \<Rightarrow> (w, Inl (HTTPException 404 ''Session not found''))
      | Some s \<Rightarrow>
          (let s1 = (case SessionUpdateRequest.description request of
                       None \<Rightarrow> s | Some d \<Rightarrow> s\<lparr>description := Some d\<rparr>);
               s2 = (case SessionUpdateRequest.tags request of
                       None \<Rightarrow> s1 | Some ts \<Rightarrow> s1\<lparr>tags := ts\<rparr>);
               s3 = (case SessionUpdateRequest.shared request of
                       None \<Rightarrow> s2 | Some b \<Rightarrow> s2\<lparr>shared := Some b\<rparr>)
           in (save_metadata (w\<lparr>sessions := AList.map_entry session_id (\<lambda>x. s3) (sessions w)\<rparr>),
               Inr (SessionReply s3))))"

definition fork_prompt :: "string \<Rightarrow> string \<Rightarrow> string" where
  "fork_prompt session_id new_id = join nl [
      ''IMPORTANT: You need to fork your knowledge to a new session.'',
      '''',
      ''A new session has been created as a fork of your current session. You need to transfer your knowledge to it.'',
      '''',
      ''Please execute the following steps:'',
      ''1. Summarize everything important from our conversation'',
      ''2. Send this knowledge to the fork using this command:'',
      '''',
      ''```bash'',
      ''curl -X POST http://localhost:8001/sessions/'' @ new_id @ ''/receive-knowledge '' @ backslash,
      ''  -H '' @ dq @ ''Content-Type: application/json'' @ dq @ '' '' @ backslash,
      ''  -d '' @ sq @ ''{'' @ dq @ ''from_session'' @ dq @ '': '' @ dq @ session_id @ dq @ '', '' @ dq @ ''knowledge'' @ dq @ '': '' @ dq @ ''<YOUR_SUMMARY_HERE>'' @ dq @ ''}'' @ sq,
      ''```'',
      '''',
      ''Replace <YOUR_SUMMARY_HERE> with a comprehensive summary including:'',
      ''- All shared facts and context'',
      ''- Project state and decisions'',
      ''- Important files and their purposes'',
      ''- Current objectives and progress'',
      ''- Any other relevant information'',
      '''',
      ''This will ensure your fork has all necessary context to continue the work.'']"

definition init_prompt :: "string \<Rightarrow> string" where
  "init_prompt knowledge_text = join nl [
      ''You are a fork of another Claude session. You have just received a knowledge transfer from your parent session.'',
      '''',
      ''---KNOWLEDGE TRANSFER FROM PARENT---'',
      knowledge_text,
      ''---END TRANSFER---'',
      '''',
      ''Please:'',
      ''1. Acknowledge receipt of this knowledge'',
      ''2. Summarize what you now know'',
      ''3. Register your session ID as instructed in CLAUDE.md'',
      ''4. Indicate you'' @ sq @ ''re ready to continue the work'']"

definition transfer_file :: string where
  "transfer_file = ''awaiting_transfer.json''"

definition clone_session_api :: "env \<Rightarrow> string \<Rightarrow> string \<Rightarrow> world \<Rightarrow> world \<times> (exc + reply)" where
  "clone_session_api E session_id new_name w =
     (case clone_session E session_id new_name w of
        (w1, Inl (ValueError m)) \<Rightarrow> (w1, Inl (HTTPException 404 m))
      | (w1, Inl e) \<Rightarrow> (w1, Inl e)
      | (w1, Inr new_session) \<Rightarrow>
          (case map_of (sessions w1) session_id of
             None \<Rightarrow> (w1, Inl KeyError)
           | Some original \<Rightarrow>
               (case utcnow E w1 of
                  (t, w2) \<Rightarrow>
                    (case in_dir (workspace new_session)
                            (in_subdir ''.session''
                               (write_text transfer_file
                                  (Transfer \<lparr> from_session_id = session_id,
                                              to_session_id = id' new_session,
                                              t_created_at = t, t_status = ''pending'',
                                              received_at = None \<rparr>)))
                            (files (on_disk w2)) of
                       (fs, Some e) \<Rightarrow> (set_files fs w2, Inl e)
                     | (fs, None) \<Rightarrow>
                         (case execute_claude E (fork_prompt session_id (id' new_session))
                                 (workspace original) session_id True (set_files fs w2) of
                            (w3, fork_result) \<Rightarrow>
                              (let w4 = w3\<lparr>sessions :=
                                           AList.map_entry (id' new_session)
                                             (\<lambda>s. s\<lparr>fork_instruction_sent := Some (success fork_result),
                                                     awaiting_knowledge_transfer := Some True\<rparr>)
                                             (sessions w3)\<rparr>
                               in case map_of (sessions w4) (id' new_session) of
                                    None \<Rightarrow> (w4, Inl KeyError)
                                  | Some s \<Rightarrow> (w4, Inr (SessionReply s))))))))"

text \<open>The node at \<^verbatim>\<open>workspace / ".session" / "awaiting_transfer.json"\<close>, if the path exists.\<close>

definition lookup_transfer :: "(string \<rightharpoonup> node) \<Rightarrow> string \<Rightarrow> node option" where
  "lookup_transfer fs wsp =
     (case fs wsp of
        Some (Dir es) \<Rightarrow>
          (case map_of es ''.session'' of
             Some (Dir sub) \<Rightarrow> map_of sub transfer_file
           | other \<Rightarrow> None)
      | other \<Rightarrow> None)"

text \<open>The excerpt of the knowledge text that \<^verbatim>\<open>receive_knowledge\<close> stores on the record.\<close>

definition excerpt :: "string \<Rightarrow> string" where
  "excerpt k = (if length k > 500 then take 500 k @ ''...'' else k)"

text \<open>
  \<^verbatim>\<open>receive_knowledge\<close>. A transfer file that is a directory cannot be opened; one that
  holds no transfer record fails in \<^verbatim>\<open>json.load\<close> or at the key \<^verbatim>\<open>from_session_id\<close>.
\<close>

definition receive_knowledge ::
  "env \<Rightarrow> string \<Rightarrow> ReceiveKnowledgeRequest \<Rightarrow> world \<Rightarrow> world \<times> (exc + reply)" where
  "receive_knowledge E session_id request w =
     (case map_of (sessions w) session_id of
        None \<Rightarrow> (w, Inl (HTTPException 404 ''Session not found''))
      | Some s \<Rightarrow>
          (case (case lookup_transfer (files (on_disk w)) (workspace s) of
                   None \<Rightarrow> (w, None)
                 | Some (Dir es) \<Rightarrow> (w, Some IsADirectoryError)
                 | Some (File (Text t)) \<Rightarrow> (w, Some JSONDecodeError)
                 | Some (File (Transfer td)) \<Rightarrow>
                     if from_session_id td \<noteq> from_session request then
                       (w, Some (HTTPException 403 ''Unexpected knowledge source''))
                     else
                       (case utcnow E w of
                          (t, w1) \<Rightarrow>
                            (case in_dir (workspace s)
                                    (in_subdir ''.session''
                                       (write_text transfer_file
                                          (Transfer (td\<lparr>t_status := ''received'',
                                                        received_at := Some t\<rparr>))))
                                    (files (on_disk w1)) of
                               (fs, e) \<Rightarrow> (set_files fs w1, e)))) of
             (w1, Some e) \<Rightarrow> (w1, Inl e)
           | (w1, None) \<Rightarrow>
               (case execute_claude E (init_prompt (knowledge request)) (workspace s)
                       session_id False w1 of
                  (w2, r) \<Rightarrow>
                    if success r then
                      (save_metadata
                         (w2\<lparr>sessions :=
                               AList.map_entry session_id
                                 (\<lambda>x. x\<lparr>knowledge_received := Some True,
                                         parent_session := Some (from_session request),
                                         knowledge_transfer := Some (excerpt (knowledge request))\<rparr>)
                                 (sessions w2)\<rparr>),
                       Inr (KnowledgeReply ''success'' ''Knowledge transfer received''
                              (format_opt (response r))))
                    else (w2, Inl (HTTPException 500 (format_opt (error r)))))))"

definition archive_session_api :: "env \<Rightarrow> string \<Rightarrow> world \<Rightarrow> world \<times> (exc + reply)" where
  "archive_session_api E session_id w =
     (archive_session E session_id w, Inr (ArchiveReply ''Session archived'' session_id))"

text \<open>
  \<^verbatim>\<open>(workspace / marker_file).exists()\<close>: a relative marker path is followed from the
  workspace, component by component; an absolute one is looked up as it is.
\<close>

fun split_on :: "char \<Rightarrow> string \<Rightarrow> string list" where
  "split_on d [] = [[]]"
| "split_on d (c # cs) =
     (if c = d then [] # split_on d cs
      else (case split_on d cs of [] \<Rightarrow> [[c]] | x # xs \<Rightarrow> (c # x) # xs))"

fun lookup_path :: "node \<Rightarrow> string list \<Rightarrow> node option" where
  "lookup_path n [] = Some n"
| "lookup_path (File c) (x # xs) = None"
| "lookup_path (Dir es) (x # xs) =
     (case map_of es x of None \<Rightarrow> None | Some n \<Rightarrow> lookup_path n xs)"

definition marker_exists :: "(string \<rightharpoonup> node) \<Rightarrow> string \<Rightarrow> string \<Rightarrow> bool" where
  "marker_exists fs wsp marker =
     (if startswith marker slash then fs marker \<noteq> None
      else (case fs wsp of
              None \<Rightarrow> False
            | Some n \<Rightarrow>
                lookup_path n (filter (\<lambda>c. c \<noteq> [] \<and> c \<noteq> ''.'') (split_on CHR ''/'' marker))
                  \<noteq> None))"

definition register_claude_session ::
  "env \<Rightarrow> string \<Rightarrow> RegisterClaudeSessionRequest \<Rightarrow> world \<Rightarrow> world \<times> (exc + reply)" where
  "register_claude_session E session_id request w =
     (case map_of (sessions w) session_id of
        None \<Rightarrow> (w, Inl (HTTPException 404 ''Session not found''))
      | Some s \<Rightarrow>
          if \<not> marker_exists (files (on_disk w)) (workspace s) (marker_file request) then
            (w, Inl (HTTPException 400 ''Marker file not found''))
          else
            (case discover E (workspace s) (on_disk w) of
               None \<Rightarrow> (w, Inl (HTTPException 500 ''Could not find Claude session''))
             | Some c \<Rightarrow>
                 (save_metadata
                    (w\<lparr>sessions :=
                          AList.map_entry session_id (\<lambda>x. x\<lparr>claude_session_id := Some c\<rparr>)
                            (sessions w)\<rparr>),
                  Inr (RegisterReply ''success'' ''Claude session ID registered'' c session_id))))"

text \<open>The requests that reach the table, and the handler each one runs.\<close>

datatype request =
    Create SessionCreateRequest
  | List bool "string option"
  | Get string
  | History string
  | Send string MessageRequest
  | Update string SessionUpdateRequest
  | Clone string string
  | Receive string ReceiveKnowledgeRequest
  | Archive string
  | Register string RegisterClaudeSessionRequest

fun handle :: "env \<Rightarrow> request \<Rightarrow> world \<Rightarrow> world \<times> (exc + reply)" where
  "handle E (Create r) w = create_session_api E r w"
| "handle E (List active_only tag) w = list_sessions active_only tag w"
| "handle E (Get i) w = get_session i w"
| "handle E (History i) w = get_session_history_api E i w"
| "handle E (Send i r) w = send_message E i r w"
| "handle E (Update i r) w = update_session i r w"
| "handle E (Clone i new_name) w = clone_session_api E i new_name w"
| "handle E (Receive i r) w = receive_knowledge E i r w"
| "handle E (Archive i) w = archive_session_api E i w"
| "handle E (Register i r) w = register_claude_session E i r w"

section \<open>Example states\<close>

text \<open>
  A table with one session \<open>A\<close> whose workspace holds its context document, its state
  directory, a note and the private directory of the external tool; an environment whose
  executable ends every run with the given outcome and leaves the disk as it is.
\<close>

definition demo_session :: "string \<Rightarrow> session" where
  "demo_session i =
     \<lparr> id' = i, name = ''T'', description = Some [],
       created_at = ''2024-01-01T00:00:00'', last_accessed = ''2024-01-01T00:00:00'',
       shared = Some False, tags = [''dev''],
       workspace = path_join sessions_dir i, participants = [],
       claude_session_id = None, message_count = 0,
       tool_usage = [], status = ''active'',
       archived_at = None, knowledge_received = None,
       parent_session = None, knowledge_transfer = None,
       fork_instruction_sent = None, awaiting_knowledge_transfer = None \<rparr>"

definition demo_workspace :: "session \<Rightarrow> node" where
  "demo_workspace s =
     Dir [(''CLAUDE.md'', File (Text (claude_md s))),
          (''.session'', Dir [(''state.json'', File (Text ''{}''))]),
          (''notes.txt'', File (Text ''hello'')),
          (''.claude'', Dir [(''settings.json'', File (Text ''{}''))])]"

definition demo_disk :: disk where
  "demo_disk =
     \<lparr> files = [workspace (demo_session ''A'') \<mapsto> demo_workspace (demo_session ''A'')],
       projects = Map.empty,
       metadata_file = Some [(''A'', demo_session ''A'')] \<rparr>"

definition demo_world :: world where
  "demo_world =
     \<lparr> sessions = [(''A'', demo_session ''A'')], on_disk = demo_disk,
       clock = 0, uuids = 0, launched = [] \<rparr>"

definition demo_env :: "proc_outcome \<Rightarrow> env" where
  "demo_env outcome =
     \<lparr> utcnow_isoformat = (\<lambda>k. if k = 0 then ''2024-01-02T00:00:00'' else ''2024-01-02T00:00:07''),
       uuid4 = (\<lambda>k. if k = 0 then ''B'' else ''C''),
       home = ''/home/u'',
       subprocess_exec = (\<lambda>k inv d. (outcome, d)) \<rparr>"

text \<open>The same after \<open>A\<close> was cloned into \<open>B\<close>: the workspace of \<open>B\<close> awaits a transfer.\<close>

definition demo_transfer :: transfer_data where
  "demo_transfer =
     \<lparr> from_session_id = ''A'', to_session_id = ''B'',
       t_created_at = ''2024-01-02T00:00:02'', t_status = ''pending'',
       received_at = None \<rparr>"

definition demo_fork :: session where
  "demo_fork = (demo_session ''B'')\<lparr>name := ''B-fork'', tags := [''dev'', ''cloned'']\<rparr>"

definition demo_fork_world :: world where
  "demo_fork_world =
     \<lparr> sessions = [(''A'', demo_session ''A''), (''B'', demo_fork)],
       on_disk =
         \<lparr> files = [workspace (demo_session ''A'') \<mapsto> demo_workspace (demo_session ''A''),
                    workspace demo_fork \<mapsto>
                      Dir [(''CLAUDE.md'', File (Text (claude_md (demo_session ''A'')))),
                           (''.session'',
                              Dir [(''state.json'', File (Text ''{}'')),
                                   (transfer_file, File (Transfer demo_transfer))])]],
           projects = Map.empty,
           metadata_file = Some [(''A'', demo_session ''A''), (''B'', demo_fork)] \<rparr>,
       clock = 3, uuids = 1, launched = [] \<rparr>"

text \<open>The first state with \<open>A\<close> shared, and the message of a failed \<^verbatim>\<open>decode\<close>.\<close>

definition demo_shared_world :: world where
  "demo_shared_world =
     demo_world\<lparr>sessions := [(''A'', (demo_session ''A'')\<lparr>shared := Some True\<rparr>)]\<rparr>"

definition decode_error :: string where
  "decode_error = sq @ ''utf-8'' @ sq @ '' codec can'' @ sq
                  @ ''t decode byte 0xff in position 0: invalid start byte''"

section \<open>Auxiliary lemmas\<close>

lemma map_of_map_entry_at:
  "map_of (AList.map_entry k f xs) i = (if i = k then map_option f (map_of xs k) else map_of xs i)"
  by (simp add: map_of_map_entry split: option.splits)

lemma keys_map_entry: "map fst (AList.map_entry k f xs) = map fst xs"
  by (induction xs) auto

lemma sessions_save_metadata: "sessions (save_metadata w) = sessions w"
  by (simp add: save_metadata_def)

lemma sessions_set_files: "sessions (set_files fs w) = sessions w"
  by (simp add: set_files_def)

lemma update_activity_record:
  assumes "map_of (sessions w) i = Some s"
  shows "\<exists>a m c. map_of (sessions (update_activity E wsp sid w)) i =
           Some (s\<lparr>last_accessed := a, message_count := m, claude_session_id := c\<rparr>)"
proof (cases "i = sid")
  case True
  have "map_of (sessions (update_activity E wsp sid w)) i =
          Some (s\<lparr>last_accessed := utcnow_isoformat E (clock w),
                  message_count := message_count s + 1,
                  claude_session_id :=
                    (case map_of (sessions (update_activity E wsp sid w)) i of
                       None \<Rightarrow> None | Some x \<Rightarrow> claude_session_id x)\<rparr>)"
    using assms True
    by (auto simp: update_activity_def utcnow_def Let_def map_of_map_entry_at sessions_save_metadata
             split: option.splits)
  then show ?thesis by blast
next
  case False
  have "map_of (sessions (update_activity E wsp sid w)) i = Some s"
    using assms False
    by (auto simp: update_activity_def utcnow_def Let_def map_of_map_entry_at sessions_save_metadata
             split: option.splits)
  moreover have "s = s\<lparr>last_accessed := last_accessed s, message_count := message_count s,
                         claude_session_id := claude_session_id s\<rparr>"
    by simp
  ultimately show ?thesis by metis
qed

lemma update_activity_absent:
  "map_of (sessions w) i = None \<Longrightarrow> map_of (sessions (update_activity E wsp sid w)) i = None"
  by (auto simp: update_activity_def utcnow_def Let_def map_of_map_entry_at sessions_save_metadata
           split: option.splits)

lemma update_activity_keys: "map fst (sessions (update_activity E wsp sid w)) = map fst (sessions w)"
  by (auto simp: update_activity_def utcnow_def Let_def keys_map_entry sessions_save_metadata
           split: option.splits)

lemma execute_claude_cases:
  assumes "execute_claude E p wsp sid c w = (w', r)"
  obtains (quiet) d where "w' = w\<lparr>on_disk := d, launched := launched w @ [(build_invocation p wsp sid c w, on_disk w)]\<rparr>"
                          "\<not> success r"
    | (active) d where "w' = update_activity E wsp sid (w\<lparr>on_disk := d, launched := launched w @ [(build_invocation p wsp sid c w, on_disk w)]\<rparr>)"
  using assms
  by (auto simp: execute_claude_def Let_def failed_def
           split: prod.splits proc_outcome.splits if_splits bytes.splits)

lemma execute_claude_record:
  assumes "execute_claude E p wsp sid c w = (w', r)" and "map_of (sessions w) i = Some s"
  shows "\<exists>a m c. map_of (sessions w') i =
           Some (s\<lparr>last_accessed := a, message_count := m, claude_session_id := c\<rparr>)"
  using assms(1)
proof (cases rule: execute_claude_cases)
  case (quiet d)
  then have "map_of (sessions w') i = Some s" using assms(2) by simp
  moreover have "s = s\<lparr>last_accessed := last_accessed s, message_count := message_count s,
                         claude_session_id := claude_session_id s\<rparr>"
    by simp
  ultimately show ?thesis by metis
next
  case (active d)
  then show ?thesis
    using update_activity_record[of "w\<lparr>on_disk := d, launched := launched w @ [(build_invocation p wsp sid c w, on_disk w)]\<rparr>" i s E wsp sid] assms(2)
    by simp
qed

lemma execute_claude_absent:
  assumes "execute_claude E p wsp sid c w = (w', r)" and "map_of (sessions w) i = None"
  shows "map_of (sessions w') i = None"
  using assms(1)
  by (cases rule: execute_claude_cases) (use assms(2) in \<open>auto simp: update_activity_absent\<close>)

lemma execute_claude_keys:
  assumes "execute_claude E p wsp sid c w = (w', r)"
  shows "map fst (sessions w') = map fst (sessions w)"
  using assms
  by (cases rule: execute_claude_cases) (auto simp: update_activity_keys)

lemma excerpt_length: "length (excerpt k) \<le> 503"
  by (simp add: excerpt_def)

lemma execute_claude_field:
  assumes "execute_claude E p wsp sid c w = (w', r)"
    and "\<And>s a m c. f (s\<lparr>last_accessed := a, message_count := m, claude_session_id := c\<rparr>) = f s"
  shows "map_option f (map_of (sessions w') i) = map_option f (map_of (sessions w) i)"
proof (cases "map_of (sessions w) i")
  case None
  with execute_claude_absent [OF assms(1)] show ?thesis by simp
next
  case (Some s)
  from execute_claude_record [OF assms(1) Some] assms(2) Some show ?thesis by auto
qed

lemma create_session_frame:
  assumes "create_session E n d sh t w = (w', r)" and "i \<noteq> uuid4 E (uuids w)"
  shows "map_of (sessions w') i = map_of (sessions w) i"
  using assms
  by (auto simp: create_session_def Let_def utcnow_def sessions_set_files sessions_save_metadata
                 update_conv' set_files_def
           split: prod.splits option.splits)

lemma create_session_result:
  assumes "create_session E n d sh t w = (w', Inr s)"
  shows "id' s = uuid4 E (uuids w) \<and> name s = n \<and> description s = d \<and> shared s = sh
         \<and> tags s = (case t of None \<Rightarrow> [] | Some ts \<Rightarrow> ts)
         \<and> workspace s = path_join sessions_dir (uuid4 E (uuids w))
         \<and> claude_session_id s = None \<and> status s = ''active'' \<and> message_count s = 0
         \<and> participants s = []
         \<and> map_of (sessions w') (uuid4 E (uuids w)) = Some s"
  using assms
  by (auto simp: create_session_def Let_def utcnow_def sessions_set_files sessions_save_metadata
                 update_conv' set_files_def
           split: prod.splits option.splits)

lemma clone_session_frame:
  assumes "clone_session E sid nn w = (w', r)" and "i \<noteq> uuid4 E (uuids w)"
  shows "map_of (sessions w') i = map_of (sessions w) i"
proof (cases "map_of (sessions w) sid")
  case None
  with assms show ?thesis by (simp add: clone_session_def)
next
  case (Some original)
  obtain w1 r1 where c: "create_session E nn (Some (''Cloned from '' @ name original))
                  (shared original) (Some (tags original @ [''cloned''])) w = (w1, r1)"
    by (cases "create_session E nn (Some (''Cloned from '' @ name original))
                  (shared original) (Some (tags original @ [''cloned''])) w")
  note f = create_session_frame [OF c assms(2)]
  show ?thesis
  proof (cases r1)
    case (Inl e)
    with assms Some c f show ?thesis by (simp add: clone_session_def)
  next
    case (Inr created)
    with create_session_result c have "id' created = uuid4 E (uuids w)" by blast
    with assms Some c f Inr show ?thesis
      by (auto simp: clone_session_def Let_def sessions_set_files sessions_save_metadata
                     update_conv'
               split: prod.splits option.splits if_splits)
  qed
qed

lemma add_participant_sessions:
  "map_of (sessions (add_participant E sid p rl w)) i =
     (if i = sid then
        map_option (\<lambda>s. s\<lparr>participants := participants s @
                            [\<lparr> participant_entry.name = p, role = rl,
                               joined_at = utcnow_isoformat E (clock w) \<rparr>]\<rparr>)
          (map_of (sessions w) sid)
      else map_of (sessions w) i)"
  by (auto simp: add_participant_def utcnow_def map_of_map_entry_at sessions_save_metadata)

lemma send_message_status:
  assumes "send_message E sid req w = (w', r)"
  shows "map_option status (map_of (sessions w') i) = map_option status (map_of (sessions w) i)"
proof (cases "map_of (sessions w) sid")
  case None
  with assms show ?thesis by (simp add: send_message_def)
next
  case (Some s)
  show ?thesis
  proof (cases "files (on_disk w) (workspace s) = None")
    case True
    with assms Some show ?thesis by (simp add: send_message_def)
  next
    case False
    define w1 where "w1 = (if truthy_bool (shared s) \<and> truthy_str (participant req)
                          \<and> \<not> list_ex (\<lambda>p. participant_entry.name p = format_opt (participant req))
                                 (participants s)
                       then add_participant E sid (format_opt (participant req))
                              ''contributor'' w
                       else w)"
    define p where "p = (if truthy_bool (shared s)
                      then ''['' @ format_opt (participant req) @ '']: '' @ prompt req
                      else prompt req)"
    obtain w2 r2 where e: "execute_claude E p (workspace s) sid True w1 = (w2, r2)"
      by (cases "execute_claude E p (workspace s) sid True w1")
    have a: "map_option status (map_of (sessions w1) i) = map_option status (map_of (sessions w) i)"
      by (auto simp: w1_def add_participant_sessions map_option_case split: option.splits)
    have b: "map_option status (map_of (sessions w2) i) = map_option status (map_of (sessions w1) i)"
      by (rule execute_claude_field [OF e]) simp
    have "sessions w' = sessions w2"
      using assms Some False e
      by (auto simp: send_message_def Let_def w1_def [symmetric] p_def [symmetric] utcnow_def
               split: if_splits)
    with a b show ?thesis by simp
  qed
qed

lemma map_entry_field:
  assumes "\<And>s. g (f s) = g s"
  shows "map_option g (map_of (AList.map_entry k f xs) i) = map_option g (map_of xs i)"
  by (cases "map_of xs k") (auto simp: map_of_map_entry_at assms)

lemma update_session_status:
  assumes "update_session sid req w = (w', r)"
  shows "map_option status (map_of (sessions w') i) = map_option status (map_of (sessions w) i)"
  using assms
  by (auto simp: update_session_def Let_def map_of_map_entry_at sessions_save_metadata
           split: option.splits)

lemma register_claude_session_status:
  assumes "register_claude_session E sid req w = (w', r)"
  shows "map_option status (map_of (sessions w') i) = map_option status (map_of (sessions w) i)"
  using assms
  by (auto simp: register_claude_session_def Let_def map_of_map_entry_at sessions_save_metadata
           split: option.splits if_splits)

lemma receive_knowledge_status:
  assumes "receive_knowledge E sid req w = (w', r)"
  shows "map_option status (map_of (sessions w') i) = map_option status (map_of (sessions w) i)"
proof (cases "map_of (sessions w) sid")
  case None
  with assms show ?thesis by (simp add: receive_knowledge_def)
next
  case (Some s)
  define pre where "pre = (case lookup_transfer (files (on_disk w)) (workspace s) of
                   None \<Rightarrow> (w, None)
                 | Some (Dir es) \<Rightarrow> (w, Some IsADirectoryError)
                 | Some (File (Text t)) \<Rightarrow> (w, Some JSONDecodeError)
                 | Some (File (Transfer td)) \<Rightarrow>
                     if from_session_id td \<noteq> from_session req then
                       (w, Some (HTTPException 403 ''Unexpected knowledge source''))
                     else
                       (case utcnow E w of
                          (t, w1) \<Rightarrow>
                            (case in_dir (workspace s)
                                    (in_subdir ''.session''
                                       (write_text transfer_file
                                          (Transfer (td\<lparr>t_status := ''received'',
                                                        received_at := Some t\<rparr>))))
                                    (files (on_disk w1)) of
                               (fs, e) \<Rightarrow> (set_files fs w1, e))))"
  have p: "sessions (fst pre) = sessions w"
    by (auto simp: pre_def utcnow_def sessions_set_files
             split: option.splits node.splits content.splits prod.splits)
  show ?thesis
  proof (cases "snd pre")
    case (Some e)
    with assms \<open>map_of (sessions w) sid = Some s\<close> p show ?thesis
      by (auto simp: receive_knowledge_def pre_def [symmetric] split: prod.splits)
  next
    case None
    obtain w2 r2 where e: "execute_claude E (init_prompt (knowledge req)) (workspace s) sid False (fst pre) = (w2, r2)"
      by (cases "execute_claude E (init_prompt (knowledge req)) (workspace s) sid False (fst pre)")
    have b: "map_option status (map_of (sessions w2) i) = map_option status (map_of (sessions (fst pre)) i)"
      by (rule execute_claude_field [OF e]) simp
    from assms \<open>map_of (sessions w) sid = Some s\<close> None e
    have "w' = w2 \<or> w' = save_metadata
                         (w2\<lparr>sessions :=
                               AList.map_entry sid
                                 (\<lambda>x. x\<lparr>knowledge_received := Some True,
                                         parent_session := Some (from_session req),
                                         knowledge_transfer := Some (excerpt (knowledge req))\<rparr>)
                                 (sessions w2)\<rparr>)"
      by (auto simp: receive_knowledge_def pre_def [symmetric] split: prod.splits if_splits)
    then have "map_option status (map_of (sessions w') i) = map_option status (map_of (sessions w2) i)"
      by (auto simp: sessions_save_metadata map_entry_field)
    with b p show ?thesis by simp
  qed
qed

lemma create_session_api_status:
  assumes "create_session_api E req w = (w', r)" and "i \<noteq> uuid4 E (uuids w)"
  shows "map_option status (map_of (sessions w') i) = map_option status (map_of (sessions w) i)"
proof -
  obtain w1 r1 where c: "create_session E (SessionCreateRequest.name req)
             (SessionCreateRequest.description req)
             (SessionCreateRequest.shared req) (SessionCreateRequest.tags req) w = (w1, r1)"
    by (cases "create_session E (SessionCreateRequest.name req)
             (SessionCreateRequest.description req)
             (SessionCreateRequest.shared req) (SessionCreateRequest.tags req) w")
  note f = create_session_frame [OF c assms(2)]
  show ?thesis
  proof (cases r1)
    case (Inl e)
    with assms c f show ?thesis by (simp add: create_session_api_def)
  next
    case (Inr s)
    show ?thesis
    proof (cases "truthy_str (initial_prompt req)")
      case False
      with assms c f Inr show ?thesis
        by (auto simp: create_session_api_def truthy_str_def split: option.splits)
    next
      case True
      then obtain p where p: "initial_prompt req = Some p" "p \<noteq> []"
        by (auto simp: truthy_str_def split: option.splits)
      obtain w2 r2 where e: "execute_claude E p (workspace s) (id' s) False w1 = (w2, r2)"
        by (cases "execute_claude E p (workspace s) (id' s) False w1")
      have b: "map_option status (map_of (sessions w2) i) = map_option status (map_of (sessions w1) i)"
        by (rule execute_claude_field [OF e]) simp
      from assms c Inr p e have "w' = w2"
        by (auto simp: create_session_api_def Let_def split: if_splits)
      with b f show ?thesis by simp
    qed
  qed
qed

lemma clone_session_api_status:
  assumes "clone_session_api E sid nn w = (w', r)" and "i \<noteq> uuid4 E (uuids w)"
  shows "map_option status (map_of (sessions w') i) = map_option status (map_of (sessions w) i)"
proof -
  obtain w1 r1 where c: "clone_session E sid nn w = (w1, r1)"
    by (cases "clone_session E sid nn w")
  note f = clone_session_frame [OF c assms(2)]
  show ?thesis
  proof (cases r1)
    case (Inl e)
    with assms c f show ?thesis by (auto simp: clone_session_api_def split: exc.splits)
  next
    case (Inr new_session)
    show ?thesis
    proof (cases "map_of (sessions w1) sid")
      case None
      with assms c f Inr show ?thesis by (auto simp: clone_session_api_def)
    next
      case (Some original)
      define tr where "tr = Transfer \<lparr> from_session_id = sid,
                                              to_session_id = id' new_session,
                                              t_created_at = utcnow_isoformat E (clock w1), t_status = ''pending'',
                                              received_at = None \<rparr>"
      define w2 where "w2 = w1\<lparr>clock := Suc (clock w1)\<rparr>"
      obtain fs e where d: "in_dir (workspace new_session)
                            (in_subdir ''.session'' (write_text transfer_file tr))
                            (files (on_disk w2)) = (fs, e)"
        by (cases "in_dir (workspace new_session)
                            (in_subdir ''.session'' (write_text transfer_file tr))
                            (files (on_disk w2))")
      show ?thesis
      proof (cases e)
        case (Some x)
        have "sessions w2 = sessions w1" by (simp add: w2_def)
        with assms c f Inr \<open>map_of (sessions w1) sid = Some original\<close> d Some show ?thesis
          by (auto simp: clone_session_api_def utcnow_def tr_def [symmetric] w2_def [symmetric]
                         sessions_set_files)
      next
        case None
        obtain w3 r3 where ex: "execute_claude E (fork_prompt sid (id' new_session))
                                 (workspace original) sid True (set_files fs w2) = (w3, r3)"
          by (cases "execute_claude E (fork_prompt sid (id' new_session))
                                 (workspace original) sid True (set_files fs w2)")
        have b: "map_option status (map_of (sessions w3) i) = map_option status (map_of (sessions (set_files fs w2)) i)"
          by (rule execute_claude_field [OF ex]) simp
        from assms c Inr \<open>map_of (sessions w1) sid = Some original\<close> d None ex
        have "sessions w' = AList.map_entry (id' new_session)
                              (\<lambda>s. s\<lparr>fork_instruction_sent := Some (success r3),
                                      awaiting_knowledge_transfer := Some True\<rparr>)
                              (sessions w3)"
          by (auto simp: clone_session_api_def utcnow_def tr_def [symmetric] w2_def [symmetric]
                         Let_def split: option.splits)
        then have "map_option status (map_of (sessions w') i) = map_option status (map_of (sessions w3) i)"
          by (simp add: map_entry_field)
        with b f show ?thesis by (simp add: sessions_set_files w2_def)
      qed
    qed
  qed
qed

lemma archive_session_sessions:
  "map_of (sessions (archive_session E sid w)) i =
     (if i = sid then
        map_option (\<lambda>s. s\<lparr>status := ''archived'',
                           archived_at := Some (utcnow_isoformat E (clock w))\<rparr>)
          (map_of (sessions w) sid)
      else map_of (sessions w) i)"
  by (auto simp: archive_session_def utcnow_def map_of_map_entry_at sessions_save_metadata)

lemma archived_stays_archived:
  assumes "map_of (sessions w) i = Some s" and "status s = ''archived''"
    and "i \<noteq> uuid4 E (uuids w)"
  shows "\<exists>s'. map_of (sessions (fst (handle E q w))) i = Some s' \<and> status s' = ''archived''"
proof -
  obtain w' r where h: "handle E q w = (w', r)" by (cases "handle E q w")
  have "map_option status (map_of (sessions w') i) = Some ''archived''"
  proof (cases q)
    case (Archive x)
    with h assms show ?thesis
      by (auto simp: archive_session_api_def archive_session_sessions)
  qed (use h assms in \<open>auto simp: create_session_api_status list_sessions_def get_session_def
         get_session_history_api_def send_message_status update_session_status
         clone_session_api_status receive_knowledge_status register_claude_session_status
         Let_def split: option.splits sum.splits if_splits\<close>)
  with h show ?thesis by auto
qed

lemma archive_session_clock:
  "map_of (sessions w) sid = Some s \<Longrightarrow> clock (archive_session E sid w) = Suc (clock w)"
  by (simp add: archive_session_def utcnow_def save_metadata_def)

lemma launched_update_activity: "launched (update_activity E wsp sid w) = launched w"
  by (auto simp: update_activity_def utcnow_def Let_def save_metadata_def split: option.splits)

lemma execute_claude_launched:
  assumes "execute_claude E p wsp sid c w = (w', r)"
  shows "launched w' = launched w @ [(build_invocation p wsp sid c w, on_disk w)]"
  using assms
  by (cases rule: execute_claude_cases) (auto simp: launched_update_activity)

lemma execute_claude_failed_run:
  assumes "execute_claude E p wsp sid c w = (w', r)"
    and "fst (subprocess_exec E (length (launched w)) (build_invocation p wsp sid c w) (on_disk w))
           = outcome"
    and "case outcome of Raised e \<Rightarrow> True | Exited rc out err \<Rightarrow> rc \<noteq> 0"
  shows "sessions w' = sessions w \<and> \<not> success r"
  using assms
  by (auto simp: execute_claude_def Let_def failed_def
           split: prod.splits proc_outcome.splits if_splits bytes.splits)








section \<open>Archiving an unknown identifier\<close>

text \<open>
  Claim C9. For every identifier absent from the table, the archive handler leaves the
  whole state (table, disk, clock) as it was and answers with the message
  \<^verbatim>\<open>Session archived\<close>; it raises nothing, in particular no 404.
\<close>

theorem archive_absent_reports_success:
  assumes "map_of (sessions w) session_id = None"
  shows "archive_session_api E session_id w
           = (w, Inr (ArchiveReply ''Session archived'' session_id))"
  using assms by (simp add: archive_session_api_def archive_session_def)

theorem archive_absent_reports_success_witness:
  "map_of (sessions demo_world) ''nowhere'' = None \<and>
   archive_session_api (demo_env (Raised ''unused'')) ''nowhere'' demo_world
     = (demo_world, Inr (ArchiveReply ''Session archived'' ''nowhere''))"
proof -
  have h: "map_of (sessions demo_world) ''nowhere'' = None"
    by (simp add: demo_world_def)
  from archive_absent_reports_success [OF h] h show ?thesis by simp
qed

section \<open>Updating the metadata of a session\<close>

text \<open>
  Claim C6. For every session in the table, the update handler answers with the record it
  leaves in the table; that record differs from the one before in the fields
  \<^verbatim>\<open>description\<close>, \<^verbatim>\<open>tags\<close>, \<^verbatim>\<open>shared\<close> at most, each of them replaced exactly when
  the request sets it; with no field set the record is the one before. The other fields
  (identifier, name, timestamps, workspace, participants, conversation handle, message
  count, tool usage, status) and every other record of the table are as before.
\<close>

theorem update_session_changes_only_requested_fields:
  assumes "map_of (sessions w) session_id = Some s"
    and "update_session session_id request w = (w', r)"
  shows "\<exists>s'. r = Inr (SessionReply s') \<and> map_of (sessions w') session_id = Some s'
           \<and> description s' = (case SessionUpdateRequest.description request of
                                  None \<Rightarrow> description s | Some d \<Rightarrow> Some d)
           \<and> tags s' = (case SessionUpdateRequest.tags request of
                           None \<Rightarrow> tags s | Some ts \<Rightarrow> ts)
           \<and> shared s' = (case SessionUpdateRequest.shared request of
                             None \<Rightarrow> shared s | Some b \<Rightarrow> Some b)
           \<and> s' = s\<lparr>description := description s', tags := tags s', shared := shared s'\<rparr>
           \<and> id' s' = id' s \<and> name s' = name s \<and> created_at s' = created_at s
           \<and> last_accessed s' = last_accessed s \<and> workspace s' = workspace s
           \<and> participants s' = participants s \<and> claude_session_id s' = claude_session_id s
           \<and> message_count s' = message_count s \<and> tool_usage s' = tool_usage s
           \<and> status s' = status s
           \<and> (if SessionUpdateRequest.description request = None
                  \<and> SessionUpdateRequest.tags request = None
                  \<and> SessionUpdateRequest.shared request = None
               then s' = s else True)
           \<and> map fst (sessions w') = map fst (sessions w)
           \<and> (\<forall>i. i \<noteq> session_id \<longrightarrow> map_of (sessions w') i = map_of (sessions w) i)"
  using assms
  by (auto simp: update_session_def Let_def map_of_map_entry_at sessions_save_metadata
                 keys_map_entry
           split: option.splits)

theorem update_session_changes_only_requested_fields_witness:
  "map_of (sessions demo_world) ''A'' = Some (demo_session ''A'') \<and>
   map_option tags
     (map_of (sessions (fst (update_session ''A''
        \<lparr> SessionUpdateRequest.description = None, tags = Some [''x''], shared = None \<rparr>
        demo_world))) ''A'') = Some [''x''] \<and>
   map_option message_count
     (map_of (sessions (fst (update_session ''A''
        \<lparr> SessionUpdateRequest.description = None, tags = Some [''x''], shared = None \<rparr>
        demo_world))) ''A'') = Some 0"
proof -
  have h: "map_of (sessions demo_world) ''A'' = Some (demo_session ''A'')"
    by (simp add: demo_world_def)
  obtain w' r where u: "update_session ''A''
        \<lparr> SessionUpdateRequest.description = None, tags = Some [''x''], shared = None \<rparr>
        demo_world = (w', r)"
    by (cases "update_session ''A''
        \<lparr> SessionUpdateRequest.description = None, tags = Some [''x''], shared = None \<rparr>
        demo_world")
  from update_session_changes_only_requested_fields [OF h u] h u show ?thesis
    by (auto simp: demo_session_def)
qed

section \<open>A knowledge transfer from an unexpected source\<close>

text \<open>
  Claim C2. For every session whose workspace holds a pending transfer record, a
  \<^verbatim>\<open>receive_knowledge\<close> request whose \<^verbatim>\<open>from_session\<close> is not the parent recorded
  there raises the HTTP exception 403 and leaves the whole state as it was: the record of
  the session (with its fields \<^verbatim>\<open>knowledge_received\<close>, \<^verbatim>\<open>parent_session\<close>,
  \<^verbatim>\<open>knowledge_transfer\<close>) and the transfer record with its status.
\<close>

theorem receive_knowledge_wrong_source_forbidden:
  assumes "map_of (sessions w) session_id = Some s"
    and "lookup_transfer (files (on_disk w)) (workspace s) = Some (File (Transfer td))"
    and "t_status td = ''pending''"
    and "from_session request \<noteq> from_session_id td"
  shows "receive_knowledge E session_id request w
           = (w, Inl (HTTPException 403 ''Unexpected knowledge source''))"
  using assms by (auto simp: receive_knowledge_def)

theorem receive_knowledge_wrong_source_forbidden_witness:
  "map_of (sessions demo_fork_world) ''B'' = Some demo_fork \<and>
   lookup_transfer (files (on_disk demo_fork_world)) (workspace demo_fork)
     = Some (File (Transfer demo_transfer)) \<and>
   t_status demo_transfer = ''pending'' \<and>
   ''X'' \<noteq> from_session_id demo_transfer \<and>
   receive_knowledge (demo_env (Raised ''unused'')) ''B''
       \<lparr> from_session = ''X'', knowledge = ''stolen'' \<rparr> demo_fork_world
     = (demo_fork_world, Inl (HTTPException 403 ''Unexpected knowledge source''))"
proof -
  have h: "map_of (sessions demo_fork_world) ''B'' = Some demo_fork"
    by (simp add: demo_fork_world_def)
  have t: "lookup_transfer (files (on_disk demo_fork_world)) (workspace demo_fork)
             = Some (File (Transfer demo_transfer))"
    by (simp add: demo_fork_world_def lookup_transfer_def demo_fork_def demo_session_def
                  path_join_def sessions_dir_def slash_def transfer_file_def)
  have p: "t_status demo_transfer = ''pending''"
    by (simp add: demo_transfer_def)
  have n: "from_session \<lparr> from_session = ''X'', knowledge = ''stolen'' \<rparr>
             \<noteq> from_session_id demo_transfer"
    by (simp add: demo_transfer_def)
  from receive_knowledge_wrong_source_forbidden [OF h t p n] h t p n show ?thesis by simp
qed

section \<open>The history of a session without conversation logs\<close>

text \<open>
  Claim C8, as amended. For every session in the table whose project directory does not
  exist, \<^verbatim>\<open>get_session_history\<close> of the manager returns the empty list, and the history
  handler, which tests \<^verbatim>\<open>if not history\<close>, raises the HTTP exception 404
  \<^verbatim>\<open>Session history not found\<close> and leaves the state as it was.
\<close>

theorem history_without_project_dir:
  assumes "map_of (sessions w) session_id = Some s"
    and "projects (on_disk w) (project_dir E (workspace s)) = None"
  shows "get_session_history E session_id w = Inr [] \<and>
         get_session_history_api E session_id w
           = (w, Inl (HTTPException 404 ''Session history not found''))"
  using assms by (simp add: get_session_history_api_def get_session_history_def)

theorem history_without_project_dir_witness:
  "map_of (sessions demo_world) ''A'' = Some (demo_session ''A'') \<and>
   projects (on_disk demo_world)
     (project_dir (demo_env (Raised ''unused'')) (workspace (demo_session ''A''))) = None \<and>
   get_session_history (demo_env (Raised ''unused'')) ''A'' demo_world = Inr [] \<and>
   get_session_history_api (demo_env (Raised ''unused'')) ''A'' demo_world
     = (demo_world, Inl (HTTPException 404 ''Session history not found''))"
proof -
  have h: "map_of (sessions demo_world) ''A'' = Some (demo_session ''A'')"
    by (simp add: demo_world_def)
  have p: "projects (on_disk demo_world)
     (project_dir (demo_env (Raised ''unused'')) (workspace (demo_session ''A''))) = None"
    by (simp add: demo_world_def demo_disk_def)
  from history_without_project_dir [OF h p] h p show ?thesis by simp
qed

text \<open>
  The claim as stated (the caller gets an empty history, not an error) fails for the
  session \<open>A\<close> of the example state: the handler answers with an exception.
\<close>

theorem history_without_project_dir_counterexample:
  "snd (get_session_history_api (demo_env (Raised ''unused'')) ''A'' demo_world)
     = Inl (HTTPException 404 ''Session history not found'') \<and>
   status_code (HTTPException 404 ''Session history not found'') = 404"
  by (simp add: get_session_history_api_def get_session_history_def demo_world_def
                demo_disk_def status_code_def)

section \<open>The excerpt of the transferred knowledge\<close>

text \<open>
  Claim C4, as amended. For every \<^verbatim>\<open>receive_knowledge\<close> request that succeeds, the record
  of the session holds the parent, the flag \<^verbatim>\<open>knowledge_received\<close> and an excerpt of the
  knowledge text: the text itself when it has at most 500 characters, and otherwise its
  first 500 characters followed by three dots, 503 characters in all.
\<close>

theorem receive_knowledge_stores_excerpt:
  assumes "receive_knowledge E session_id request w = (w', Inr rep)"
  shows "\<exists>s'. map_of (sessions w') session_id = Some s'
           \<and> knowledge_transfer s' = Some (excerpt (knowledge request))
           \<and> knowledge_received s' = Some True
           \<and> parent_session s' = Some (from_session request)
           \<and> length (excerpt (knowledge request)) \<le> 503
           \<and> (if length (knowledge request) \<le> 500
               then excerpt (knowledge request) = knowledge request
               else excerpt (knowledge request) = take 500 (knowledge request) @ ''...''
                    \<and> length (excerpt (knowledge request)) = 503)"
proof -
  from assms obtain s where s: "map_of (sessions w) session_id = Some s"
    by (auto simp: receive_knowledge_def split: option.splits)
  from assms s obtain w1 w2 r where
    e: "execute_claude E (init_prompt (knowledge request)) (workspace s) session_id False w1 = (w2, r)"
    and s1: "sessions w1 = sessions w"
    and ok: "success r"
    and w': "w' = save_metadata
                    (w2\<lparr>sessions :=
                          AList.map_entry session_id
                            (\<lambda>x. x\<lparr>knowledge_received := Some True,
                                    parent_session := Some (from_session request),
                                    knowledge_transfer := Some (excerpt (knowledge request))\<rparr>)
                            (sessions w2)\<rparr>)"
    by (auto simp: receive_knowledge_def utcnow_def sessions_set_files
             split: option.splits node.splits content.splits if_splits prod.splits)
  from execute_claude_record [OF e, of session_id s] s s1
  obtain a m c where
    "map_of (sessions w2) session_id =
       Some (s\<lparr>last_accessed := a, message_count := m, claude_session_id := c\<rparr>)"
    by auto
  with w' show ?thesis
    by (auto simp: sessions_save_metadata map_of_map_entry_at excerpt_def)
qed

theorem receive_knowledge_stores_excerpt_witness:
  "snd (receive_knowledge (demo_env (Exited 0 (Utf8 ''ready'') (Utf8 []))) ''B''
          \<lparr> from_session = ''A'', knowledge = ''the plan'' \<rparr> demo_fork_world)
     = Inr (KnowledgeReply ''success'' ''Knowledge transfer received'' ''ready'') \<and>
   map_option knowledge_transfer
     (map_of (sessions (fst (receive_knowledge (demo_env (Exited 0 (Utf8 ''ready'') (Utf8 []))) ''B''
          \<lparr> from_session = ''A'', knowledge = ''the plan'' \<rparr> demo_fork_world))) ''B'')
     = Some (Some ''the plan'')"
proof -
  let ?run = "receive_knowledge (demo_env (Exited 0 (Utf8 ''ready'') (Utf8 []))) ''B''
          \<lparr> from_session = ''A'', knowledge = ''the plan'' \<rparr> demo_fork_world"
  have r: "snd ?run = Inr (KnowledgeReply ''success'' ''Knowledge transfer received'' ''ready'')"
    by (simp add: receive_knowledge_def demo_fork_world_def lookup_transfer_def demo_fork_def
        demo_session_def path_join_def sessions_dir_def slash_def transfer_file_def
        demo_transfer_def utcnow_def demo_env_def in_dir_def in_subdir_def write_text_def
        set_files_def execute_claude_def build_invocation_def Let_def update_activity_def
        save_metadata_def truthy_str_def discover_def format_opt_def)
  then have e: "?run = (fst ?run, Inr (KnowledgeReply ''success'' ''Knowledge transfer received'' ''ready''))"
    by (metis prod.collapse)
  from receive_knowledge_stores_excerpt [OF e] r show ?thesis
    by (auto simp: excerpt_def)
qed

text \<open>
  The claim as stated (at most 500 characters are stored) fails for a text of 501
  characters: the call succeeds and the copy on the record has 503 characters.
\<close>

theorem receive_knowledge_stores_excerpt_counterexample:
  "(case receive_knowledge (demo_env (Exited 0 (Utf8 ''ready'') (Utf8 []))) ''B''
          \<lparr> from_session = ''A'', knowledge = replicate 501 (CHR ''k'') \<rparr> demo_fork_world of
      (w', r) \<Rightarrow>
        r = Inr (KnowledgeReply ''success'' ''Knowledge transfer received'' ''ready'') \<and>
        map_option (\<lambda>s. map_option length (knowledge_transfer s)) (map_of (sessions w') ''B'')
          = Some (Some 503))"
  by (simp add: receive_knowledge_def demo_fork_world_def lookup_transfer_def demo_fork_def
        demo_session_def path_join_def sessions_dir_def slash_def transfer_file_def
        demo_transfer_def utcnow_def demo_env_def in_dir_def in_subdir_def write_text_def
        set_files_def execute_claude_def build_invocation_def Let_def update_activity_def
        save_metadata_def truthy_str_def discover_def format_opt_def excerpt_def)

section \<open>Archiving a session twice\<close>

text \<open>
  Claim C3, as amended. For every session in the table, after one and after two calls of
  the archive handler the record is in the table with status \<^verbatim>\<open>archived\<close>; the second
  call overwrites \<^verbatim>\<open>archived_at\<close> with its own reading of the clock and changes nothing
  else of the record. The archived record is among the values of the table and is not in
  the list of active sessions. No handler turns the status of an archived record into
  anything else, while \<^verbatim>\<open>uuid4\<close> does not draw the identifier of that record again.
\<close>

theorem archive_twice_overwrites_timestamp:
  assumes "map_of (sessions w) session_id = Some s"
  shows "\<exists>s1 s2.
           map_of (sessions (fst (archive_session_api E session_id w))) session_id = Some s1
         \<and> map_of (sessions (fst (archive_session_api E session_id
                                   (fst (archive_session_api E session_id w))))) session_id = Some s2
         \<and> status s1 = ''archived'' \<and> status s2 = ''archived''
         \<and> archived_at s1 = Some (utcnow_isoformat E (clock w))
         \<and> archived_at s2 = Some (utcnow_isoformat E (Suc (clock w)))
         \<and> s2 = s1\<lparr>archived_at := Some (utcnow_isoformat E (Suc (clock w)))\<rparr>
         \<and> s2 \<in> set (map snd (sessions (fst (archive_session_api E session_id
                                   (fst (archive_session_api E session_id w))))))
         \<and> s2 \<notin> set (list_active_sessions (fst (archive_session_api E session_id
                                   (fst (archive_session_api E session_id w)))))
         \<and> (\<forall>E' q w0 s0.
               map_of (sessions w0) session_id = Some s0 \<and> status s0 = ''archived''
               \<and> session_id \<noteq> uuid4 E' (uuids w0)
               \<longrightarrow> (\<exists>s'. map_of (sessions (fst (handle E' q w0))) session_id = Some s'
                          \<and> status s' = ''archived''))"
proof -
  define w1 where "w1 = archive_session E session_id w"
  define w2 where "w2 = archive_session E session_id w1"
  define s1 where "s1 = s\<lparr>status := ''archived'',
                           archived_at := Some (utcnow_isoformat E (clock w))\<rparr>"
  define s2 where "s2 = s1\<lparr>archived_at := Some (utcnow_isoformat E (Suc (clock w)))\<rparr>"
  have a1: "map_of (sessions w1) session_id = Some s1"
    using assms by (simp add: w1_def s1_def archive_session_sessions)
  have c1: "clock w1 = Suc (clock w)"
    using assms by (simp add: w1_def archive_session_clock)
  have a2: "map_of (sessions w2) session_id = Some s2"
    using a1 c1 by (simp add: w2_def s2_def s1_def archive_session_sessions)
  have m: "s2 \<in> set (map snd (sessions w2))"
    using map_of_SomeD [OF a2] by force
  have n: "s2 \<notin> set (list_active_sessions w2)"
    by (simp add: list_active_sessions_def s2_def s1_def)
  have inv: "\<forall>E' q w0 s0.
               map_of (sessions w0) session_id = Some s0 \<and> status s0 = ''archived''
               \<and> session_id \<noteq> uuid4 E' (uuids w0)
               \<longrightarrow> (\<exists>s'. map_of (sessions (fst (handle E' q w0))) session_id = Some s'
                          \<and> status s' = ''archived'')"
    using archived_stays_archived by blast
  have "map_of (sessions w1) session_id = Some s1
         \<and> map_of (sessions w2) session_id = Some s2
         \<and> status s1 = ''archived'' \<and> status s2 = ''archived''
         \<and> archived_at s1 = Some (utcnow_isoformat E (clock w))
         \<and> archived_at s2 = Some (utcnow_isoformat E (Suc (clock w)))
         \<and> s2 = s1\<lparr>archived_at := Some (utcnow_isoformat E (Suc (clock w)))\<rparr>
         \<and> s2 \<in> set (map snd (sessions w2))
         \<and> s2 \<notin> set (list_active_sessions w2)"
    using a1 a2 m n by (simp add: s1_def s2_def)
  with inv show ?thesis
    unfolding archive_session_api_def fst_conv w1_def [symmetric] w2_def [symmetric]
    by blast
qed

theorem archive_twice_overwrites_timestamp_witness:
  "map_of (sessions demo_world) ''A'' = Some (demo_session ''A'') \<and>
   map_option status
     (map_of (sessions (fst (archive_session_api (demo_env (Raised ''unused'')) ''A''
        (fst (archive_session_api (demo_env (Raised ''unused'')) ''A'' demo_world))))) ''A'')
     = Some ''archived'' \<and>
   map_option status
     (map_of (sessions (fst (handle (demo_env (Raised ''unused''))
        (Update ''A'' \<lparr> SessionUpdateRequest.description = Some ''again'',
                         tags = None, shared = None \<rparr>)
        (fst (archive_session_api (demo_env (Raised ''unused'')) ''A''
           (fst (archive_session_api (demo_env (Raised ''unused'')) ''A'' demo_world))))))) ''A'')
     = Some ''archived''"
proof -
  let ?E = "demo_env (Raised ''unused'')"
  let ?w2 = "fst (archive_session_api ?E ''A'' (fst (archive_session_api ?E ''A'' demo_world)))"
  have h: "map_of (sessions demo_world) ''A'' = Some (demo_session ''A'')"
    by (simp add: demo_world_def)
  have u: "''A'' \<noteq> uuid4 ?E (uuids ?w2)"
    by (simp add: demo_env_def)
  from archive_twice_overwrites_timestamp [OF h, of ?E]
  obtain s2 where s2: "map_of (sessions ?w2) ''A'' = Some s2" "status s2 = ''archived''"
    and inv: "\<forall>E' q w0 s0.
               map_of (sessions w0) ''A'' = Some s0 \<and> status s0 = ''archived''
               \<and> ''A'' \<noteq> uuid4 E' (uuids w0)
               \<longrightarrow> (\<exists>s'. map_of (sessions (fst (handle E' q w0))) ''A'' = Some s'
                          \<and> status s' = ''archived'')"
    by blast
  from inv s2 u obtain s' where
    "map_of (sessions (fst (handle ?E
        (Update ''A'' \<lparr> SessionUpdateRequest.description = Some ''again'',
                         tags = None, shared = None \<rparr>) ?w2))) ''A'' = Some s'"
    "status s' = ''archived''"
    by blast
  with h s2 show ?thesis by simp
qed

text \<open>
  The claim as stated (the second call does not alter \<^verbatim>\<open>archived_at\<close>) fails when the
  clock has moved between the two calls.
\<close>

theorem archive_twice_overwrites_timestamp_counterexample:
  "map_option archived_at
     (map_of (sessions (fst (archive_session_api (demo_env (Raised ''unused'')) ''A'' demo_world)))
        ''A'')
     = Some (Some ''2024-01-02T00:00:00'') \<and>
   map_option archived_at
     (map_of (sessions (fst (archive_session_api (demo_env (Raised ''unused'')) ''A''
        (fst (archive_session_api (demo_env (Raised ''unused'')) ''A'' demo_world))))) ''A'')
     = Some (Some ''2024-01-02T00:00:07'')"
  by (simp add: archive_session_api_def archive_session_def demo_world_def utcnow_def
                save_metadata_def demo_env_def)

section \<open>A new participant of a shared session\<close>

text \<open>
  Claim C10. For every message sent to a shared session by a participant whose name is
  not yet among the participants of the record: the entry of the participant (role
  \<^verbatim>\<open>contributor\<close>) is appended to the record and the table is saved before the external
  executable is started, so the metadata document on the disk that the run starts on holds
  the entry; and whatever the handler then answers, an error of a failed run included, the
  record in the table holds the entry afterwards.
\<close>

theorem send_message_keeps_new_participant:
  assumes "map_of (sessions w) session_id = Some s"
    and "files (on_disk w) (workspace s) \<noteq> None"
    and "truthy_bool (shared s)"
    and "participant request = Some p" and "p \<noteq> []"
    and "\<not> list_ex (\<lambda>q. participant_entry.name q = p) (participants s)"
    and "send_message E session_id request w = (w', r)"
  shows "\<exists>s' inv d st sd.
           map_of (sessions w') session_id = Some s'
         \<and> participants s' = participants s @
               [\<lparr> participant_entry.name = p, role = ''contributor'',
                  joined_at = utcnow_isoformat E (clock w) \<rparr>]
         \<and> launched w' = launched w @ [(inv, d)]
         \<and> stdin inv = ''['' @ p @ '']: '' @ prompt request
         \<and> metadata_file d = Some st
         \<and> map_of st session_id = Some sd
         \<and> participants sd = participants s @
               [\<lparr> participant_entry.name = p, role = ''contributor'',
                  joined_at = utcnow_isoformat E (clock w) \<rparr>]"
proof -
  define entry where "entry = \<lparr> participant_entry.name = p, role = ''contributor'',
                  joined_at = utcnow_isoformat E (clock w) \<rparr>"
  define w1 where "w1 = add_participant E session_id p ''contributor'' w"
  define pr where "pr = ''['' @ p @ '']: '' @ prompt request"
  obtain w2 r2 where e: "execute_claude E pr (workspace s) session_id True w1 = (w2, r2)"
    by (cases "execute_claude E pr (workspace s) session_id True w1")
  have s1: "map_of (sessions w1) session_id = Some (s\<lparr>participants := participants s @ [entry]\<rparr>)"
    using assms(1) by (simp add: w1_def add_participant_sessions entry_def)
  have m1: "metadata_file (on_disk w1) = Some (sessions w1)"
    using assms(1) by (simp add: w1_def add_participant_def utcnow_def save_metadata_def)
  have l1: "launched w1 = launched w"
    using assms(1) by (simp add: w1_def add_participant_def utcnow_def save_metadata_def)
  have "map_option participants (map_of (sessions w2) session_id)
          = map_option participants (map_of (sessions w1) session_id)"
    by (rule execute_claude_field [OF e]) simp
  with s1 obtain s2 where s2: "map_of (sessions w2) session_id = Some s2"
      "participants s2 = participants s @ [entry]"
    by auto
  have l2: "launched w2 = launched w @ [(build_invocation pr (workspace s) session_id True w1, on_disk w1)]"
    using execute_claude_launched [OF e] l1 by simp
  have i: "stdin (build_invocation pr (workspace s) session_id True w1) = pr"
    by (simp add: build_invocation_def Let_def)
  have "send_message E session_id request w =
          (case execute_claude E pr (workspace s) session_id True w1 of
             (w2, r) \<Rightarrow>
               if \<not> success r then (w2, Inl (HTTPException 500 (format_opt (error r))))
               else (case utcnow E w2 of
                       (t, w3) \<Rightarrow>
                         (w3, Inr (MessageReply session_id (participant request)
                                     (prompt request) (format_opt (response r)) t))))"
    using assms(1-6)
    by (auto simp: send_message_def Let_def truthy_str_def format_opt_def w1_def pr_def)
  with assms(7) e have "sessions w' = sessions w2 \<and> launched w' = launched w2"
    by (auto simp: utcnow_def split: if_splits)
  with s2 l2 i m1 s1 show ?thesis
    unfolding entry_def [symmetric] pr_def [symmetric] by auto
qed

theorem send_message_keeps_new_participant_witness:
  "map_of (sessions demo_shared_world) ''A'' = Some ((demo_session ''A'')\<lparr>shared := Some True\<rparr>) \<and>
   files (on_disk demo_shared_world) (workspace ((demo_session ''A'')\<lparr>shared := Some True\<rparr>)) \<noteq> None \<and>
   snd (send_message (demo_env (Exited 1 (Utf8 []) (Utf8 ''boom''))) ''A''
          \<lparr> prompt = ''hi'', participant = Some ''alice'' \<rparr> demo_shared_world)
     = Inl (HTTPException 500 ''boom'') \<and>
   map_option participants
     (map_of (sessions (fst (send_message (demo_env (Exited 1 (Utf8 []) (Utf8 ''boom''))) ''A''
          \<lparr> prompt = ''hi'', participant = Some ''alice'' \<rparr> demo_shared_world))) ''A'')
     = Some [\<lparr> participant_entry.name = ''alice'', role = ''contributor'',
               joined_at = ''2024-01-02T00:00:00'' \<rparr>]"
proof -
  let ?E = "demo_env (Exited 1 (Utf8 []) (Utf8 ''boom''))"
  let ?s = "(demo_session ''A'')\<lparr>shared := Some True\<rparr>"
  let ?req = "\<lparr> prompt = ''hi'', participant = Some ''alice'' \<rparr>"
  have h: "map_of (sessions demo_shared_world) ''A'' = Some ?s"
    by (simp add: demo_shared_world_def)
  have f: "files (on_disk demo_shared_world) (workspace ?s) \<noteq> None"
    by (simp add: demo_shared_world_def demo_world_def demo_disk_def)
  have t: "truthy_bool (shared ?s)" by (simp add: truthy_bool_def)
  have p: "participant ?req = Some ''alice''" "''alice'' \<noteq> []" by simp_all
  have n: "\<not> list_ex (\<lambda>q. participant_entry.name q = ''alice'') (participants ?s)"
    by (simp add: demo_session_def)
  have r: "snd (send_message ?E ''A'' ?req demo_shared_world) = Inl (HTTPException 500 ''boom'')"
    by (simp add: send_message_def demo_shared_world_def demo_world_def demo_disk_def
          demo_session_def truthy_bool_def truthy_str_def format_opt_def add_participant_def
          utcnow_def save_metadata_def execute_claude_def build_invocation_def Let_def
          demo_env_def failed_def path_join_def sessions_dir_def slash_def)
  have e: "send_message ?E ''A'' ?req demo_shared_world
             = (fst (send_message ?E ''A'' ?req demo_shared_world),
                snd (send_message ?E ''A'' ?req demo_shared_world))"
    by simp
  from send_message_keeps_new_participant [OF h f t p n e] h f r show ?thesis
    by (auto simp: demo_env_def demo_shared_world_def demo_world_def demo_session_def)
qed

section \<open>Sending a message\<close>

text \<open>
  What holds of claim C1: a message to an identifier that is not in the table raises the
  HTTP exception 404, a message to a session whose workspace does not exist raises the
  HTTP exception 500, both leaving the state as it was; and when the handler raises after
  a run of the executable that did not end with status 0 and undecodable output, the
  message count and the last-access time of the record are the ones before.
\<close>

lemma send_message_unknown_session:
  assumes "map_of (sessions w) session_id = None"
  shows "send_message E session_id request w
           = (w, Inl (HTTPException 404 ''Session not found''))"
  using assms by (simp add: send_message_def)

lemma send_message_missing_workspace:
  assumes "map_of (sessions w) session_id = Some s"
    and "files (on_disk w) (workspace s) = None"
  shows "send_message E session_id request w
           = (w, Inl (HTTPException 500 ''Session workspace not found''))"
  using assms by (simp add: send_message_def)

lemma execute_claude_failure:
  assumes "execute_claude E p wsp sid c w = (w', r)" and "\<not> success r"
    and "\<And>t err. fst (subprocess_exec E (length (launched w)) (build_invocation p wsp sid c w)
                        (on_disk w)) \<noteq> Exited 0 (Invalid t) err"
  shows "sessions w' = sessions w"
  using assms
  by (auto simp: execute_claude_def Let_def failed_def
           split: prod.splits proc_outcome.splits if_splits bytes.splits)

lemma send_message_failed_run_keeps_counters:
  assumes "map_of (sessions w) session_id = Some s"
    and "send_message E session_id request w = (w', Inl e)"
    and "\<And>k inv d t err. fst (subprocess_exec E k inv d) \<noteq> Exited 0 (Invalid t) err"
  shows "\<exists>s'. map_of (sessions w') session_id = Some s'
           \<and> message_count s' = message_count s \<and> last_accessed s' = last_accessed s"
proof (cases "files (on_disk w) (workspace s) = None")
  case True
  with assms(1,2) show ?thesis by (simp add: send_message_def)
next
  case False
  define w1 where "w1 = (if truthy_bool (shared s) \<and> truthy_str (participant request)
                          \<and> \<not> list_ex (\<lambda>p. participant_entry.name p = format_opt (participant request))
                                 (participants s)
                       then add_participant E session_id (format_opt (participant request))
                              ''contributor'' w
                       else w)"
  define p where "p = (if truthy_bool (shared s)
                      then ''['' @ format_opt (participant request) @ '']: '' @ prompt request
                      else prompt request)"
  obtain w2 r2 where ex: "execute_claude E p (workspace s) session_id True w1 = (w2, r2)"
    by (cases "execute_claude E p (workspace s) session_id True w1")
  have "send_message E session_id request w =
          (if \<not> success r2 then (w2, Inl (HTTPException 500 (format_opt (error r2))))
           else (case utcnow E w2 of
                   (t, w3) \<Rightarrow>
                     (w3, Inr (MessageReply session_id (participant request)
                                 (prompt request) (format_opt (response r2)) t))))"
    using assms(1) False ex
    by (auto simp: send_message_def Let_def w1_def [symmetric] p_def [symmetric])
  with assms(2) have f: "\<not> success r2" "w' = w2"
    by (auto split: if_splits prod.splits)
  have "sessions w2 = sessions w1"
    by (rule execute_claude_failure [OF ex f(1)]) (rule assms(3))
  moreover have "\<exists>s1. map_of (sessions w1) session_id = Some s1
           \<and> message_count s1 = message_count s \<and> last_accessed s1 = last_accessed s"
    using assms(1) by (auto simp: w1_def add_participant_sessions)
  ultimately show ?thesis using f(2) by simp
qed

text \<open>
  Claim C1 says that in every failing case the message count and the last-access time of
  the record are as before the call. At this input they are not: the executable ends with
  status 0 and an output that is no UTF-8. \<^verbatim>\<open>execute_claude\<close> has then counted the
  message, set the last-access time and saved the table when \<^verbatim>\<open>stdout.decode()\<close>
  raises in its \<^verbatim>\<open>return\<close> statement; the exception is caught, the result is a
  failure, and the handler raises the HTTP exception 500.
\<close>

theorem send_message_undecodable_output_counts:
  "map_option message_count (map_of (sessions demo_world) ''A'') = Some 0 \<and>
   map_option last_accessed (map_of (sessions demo_world) ''A'') = Some ''2024-01-01T00:00:00'' \<and>
   (case send_message (demo_env (Exited 0 (Invalid decode_error) (Utf8 []))) ''A''
           \<lparr> prompt = ''hi'', participant = Some ''anonymous'' \<rparr> demo_world of
      (w', r) \<Rightarrow>
        r = Inl (HTTPException 500 decode_error) \<and>
        map_option message_count (map_of (sessions w') ''A'') = Some 1 \<and>
        map_option last_accessed (map_of (sessions w') ''A'') = Some ''2024-01-02T00:00:00'' \<and>
        map_option (map_option message_count) (map_option (\<lambda>st. map_of st ''A'')
          (metadata_file (on_disk w'))) = Some (Some 1))"
  by (simp add: send_message_def demo_world_def demo_disk_def
          demo_session_def truthy_bool_def truthy_str_def format_opt_def
          utcnow_def save_metadata_def execute_claude_def build_invocation_def Let_def
          demo_env_def failed_def path_join_def sessions_dir_def slash_def
          update_activity_def discover_def)

section \<open>The child of a clone\<close>



end
